theory Spec2Isabelle
  imports Complex_Main
begin

section \<open>JavaScript values\<close>

text \<open>
  The service in \<^verbatim>\<open>server/aqiService.js\<close> works on strings, numbers and parsed JSON
  documents. A string is the sequence of its UTF-16 code units, each a natural number
  below 65536; \<open>lit\<close> gives the code units of an ASCII literal.

  A number is a double. Only comparisons with integer constants and \<^verbatim>\<open>typeof\<close> or
  \<^verbatim>\<open>Number.isNaN\<close> tests are made on numbers, so a finite double is represented by
  the real number it denotes, next to the three special values.
\<close>

type_synonym jsstring = "nat list"

definition lit :: "string \<Rightarrow> jsstring" where
  "lit s = map of_char s"

datatype jsnum = Fin real | PInf | NInf | NaN

datatype jsval =
    JUndefined
  | JNull
  | JBool bool
  | JNum jsnum
  | JStr jsstring
  | JArr "jsval list"
  | JObj "(jsstring \<times> jsval) list"

datatype error =
    MissingToken
  | TransportError
  | HttpStatusError nat jsstring
  | JsonError
  | TypeError
  | URIError

text \<open>Truthiness, as tested by \<^verbatim>\<open>!x\<close>, \<^verbatim>\<open>x && y\<close>, \<^verbatim>\<open>x || y\<close> and \<^verbatim>\<open>x ? a : b\<close>.\<close>

fun truthy :: "jsval \<Rightarrow> bool" where
  "truthy JUndefined = False"
| "truthy JNull = False"
| "truthy (JBool b) = b"
| "truthy (JNum n) = (n \<noteq> Fin 0 \<and> n \<noteq> NaN)"
| "truthy (JStr s) = (s \<noteq> [])"
| "truthy (JArr xs) = True"
| "truthy (JObj kvs) = True"

text \<open>
  Property access \<^verbatim>\<open>x.k\<close>. Reading a property of \<^verbatim>\<open>null\<close> or \<^verbatim>\<open>undefined\<close> throws a
  TypeError. An object answers with its own property or \<^verbatim>\<open>undefined\<close>; the names the
  service reads (\<^verbatim>\<open>status\<close>, \<^verbatim>\<open>data\<close>, \<^verbatim>\<open>aqi\<close>, \<^verbatim>\<open>iaqi\<close>, \<^verbatim>\<open>v\<close>, \<^verbatim>\<open>city\<close>, \<^verbatim>\<open>name\<close>, \<^verbatim>\<open>geo\<close>,
  \<^verbatim>\<open>url\<close>, \<^verbatim>\<open>dominentpol\<close>, \<^verbatim>\<open>time\<close>, \<^verbatim>\<open>iso\<close>, \<^verbatim>\<open>tz\<close>, \<^verbatim>\<open>attributions\<close>) are not inherited
  from any prototype, so every other value answers \<^verbatim>\<open>undefined\<close>.
\<close>

fun get_prop :: "jsval \<Rightarrow> jsstring \<Rightarrow> error + jsval" where
  "get_prop JUndefined k = Inl TypeError"
| "get_prop JNull k = Inl TypeError"
| "get_prop (JObj kvs) k = Inr (case map_of kvs k of None \<Rightarrow> JUndefined | Some v \<Rightarrow> v)"
| "get_prop v k = Inr JUndefined"

text \<open>The same access where the source has already tested the receiver for truthiness.\<close>

fun field_of :: "jsval \<Rightarrow> jsstring \<Rightarrow> jsval" where
  "field_of (JObj kvs) k = (case map_of kvs k of None \<Rightarrow> JUndefined | Some v \<Rightarrow> v)"
| "field_of v k = JUndefined"

text \<open>\<^verbatim>\<open>value <= c\<close> for a number \<^verbatim>\<open>value\<close> and a finite constant \<^verbatim>\<open>c\<close>.\<close>

fun js_le :: "jsnum \<Rightarrow> real \<Rightarrow> bool" where
  "js_le (Fin x) c = (x \<le> c)"
| "js_le NInf c = True"
| "js_le PInf c = False"
| "js_le NaN c = False"

subsection \<open>Strings\<close>

text \<open>
  \<^verbatim>\<open>String.prototype.trim\<close> removes the white space and line terminator code units of
  ECMAScript from both ends: TAB, LF, VT, FF, CR, SP, NBSP, the space separators of
  Unicode, LS, PS and the byte order mark.
\<close>

definition white_space :: "nat list" where
  "white_space =
     [0x9, 0xA, 0xB, 0xC, 0xD, 0x20, 0xA0, 0x1680, 0x2000, 0x2001, 0x2002, 0x2003, 0x2004,
      0x2005, 0x2006, 0x2007, 0x2008, 0x2009, 0x200A, 0x2028, 0x2029, 0x202F, 0x205F, 0x3000,
      0xFEFF]"

definition is_space :: "nat \<Rightarrow> bool" where
  "is_space u = (u \<in> set white_space)"

definition trim :: "jsstring \<Rightarrow> jsstring" where
  "trim s = rev (dropWhile is_space (rev (dropWhile is_space s)))"

text \<open>
  The case conversions work on code points. A high surrogate followed by a low surrogate
  is one code point above \<^verbatim>\<open>U+FFFF\<close>; every other code unit, also a surrogate without its
  partner, is a code point by itself.
\<close>

definition is_high :: "nat \<Rightarrow> bool" where
  "is_high u = (0xD800 \<le> u \<and> u \<le> 0xDBFF)"

definition is_low :: "nat \<Rightarrow> bool" where
  "is_low u = (0xDC00 \<le> u \<and> u \<le> 0xDFFF)"

fun code_points :: "jsstring \<Rightarrow> nat list" where
  "code_points (u # v # us) =
     (if is_high u \<and> is_low v
      then (0x10000 + (u - 0xD800) * 0x400 + (v - 0xDC00)) # code_points us
      else u # code_points (v # us))"
| "code_points us = us"

definition units_of :: "nat \<Rightarrow> jsstring" where
  "units_of c =
     (if c < 0x10000 then [c]
      else [0xD800 + (c - 0x10000) div 0x400, 0xDC00 + (c - 0x10000) mod 0x400])"

definition code_units :: "nat list \<Rightarrow> jsstring" where
  "code_units cps = concat (map units_of cps)"

text \<open>
  The case mappings and properties of Unicode 14.0. A row \<open>(f, l, s, t)\<close> of a mapping
  table sends the code points \<open>f\<close>, \<open>f + s\<close>, \<dots>, \<open>l\<close> to \<open>t\<close>, \<open>t + s\<close>, \<dots>; a code
  point in no row is its own image. \<open>special_upper\<close> holds the code points whose upper
  case has several code points. A row \<open>(f, l)\<close> of a property table is the range from
  \<open>f\<close> to \<open>l\<close>.
\<close>

definition lower_ranges :: "(nat \<times> nat \<times> nat \<times> nat) list" where
  "lower_ranges =
    [(0x41, 0x5A, 1, 0x61), (0xC0, 0xD6, 1, 0xE0), (0xD8, 0xDE, 1, 0xF8),
     (0x100, 0x12E, 2, 0x101), (0x132, 0x136, 2, 0x133), (0x139, 0x147, 2, 0x13A),
     (0x14A, 0x176, 2, 0x14B), (0x178, 0x178, 1, 0xFF), (0x179, 0x17D, 2, 0x17A),
     (0x181, 0x181, 1, 0x253), (0x182, 0x184, 2, 0x183), (0x186, 0x186, 1, 0x254),
     (0x187, 0x187, 1, 0x188), (0x189, 0x18A, 1, 0x256), (0x18B, 0x18B, 1, 0x18C),
     (0x18E, 0x18E, 1, 0x1DD), (0x18F, 0x18F, 1, 0x259), (0x190, 0x190, 1, 0x25B),
     (0x191, 0x191, 1, 0x192), (0x193, 0x193, 1, 0x260), (0x194, 0x194, 1, 0x263),
     (0x196, 0x196, 1, 0x269), (0x197, 0x197, 1, 0x268), (0x198, 0x198, 1, 0x199),
     (0x19C, 0x19C, 1, 0x26F), (0x19D, 0x19D, 1, 0x272), (0x19F, 0x19F, 1, 0x275),
     (0x1A0, 0x1A4, 2, 0x1A1), (0x1A6, 0x1A6, 1, 0x280), (0x1A7, 0x1A7, 1, 0x1A8),
     (0x1A9, 0x1A9, 1, 0x283), (0x1AC, 0x1AC, 1, 0x1AD), (0x1AE, 0x1AE, 1, 0x288),
     (0x1AF, 0x1AF, 1, 0x1B0), (0x1B1, 0x1B2, 1, 0x28A), (0x1B3, 0x1B5, 2, 0x1B4),
     (0x1B7, 0x1B7, 1, 0x292), (0x1B8, 0x1B8, 1, 0x1B9), (0x1BC, 0x1BC, 1, 0x1BD),
     (0x1C4, 0x1C4, 1, 0x1C6), (0x1C5, 0x1C5, 1, 0x1C6), (0x1C7, 0x1C7, 1, 0x1C9),
     (0x1C8, 0x1C8, 1, 0x1C9), (0x1CA, 0x1CA, 1, 0x1CC), (0x1CB, 0x1DB, 2, 0x1CC),
     (0x1DE, 0x1EE, 2, 0x1DF), (0x1F1, 0x1F1, 1, 0x1F3), (0x1F2, 0x1F4, 2, 0x1F3),
     (0x1F6, 0x1F6, 1, 0x195), (0x1F7, 0x1F7, 1, 0x1BF), (0x1F8, 0x21E, 2, 0x1F9),
     (0x220, 0x220, 1, 0x19E), (0x222, 0x232, 2, 0x223), (0x23A, 0x23A, 1, 0x2C65),
     (0x23B, 0x23B, 1, 0x23C), (0x23D, 0x23D, 1, 0x19A), (0x23E, 0x23E, 1, 0x2C66),
     (0x241, 0x241, 1, 0x242), (0x243, 0x243, 1, 0x180), (0x244, 0x244, 1, 0x289),
     (0x245, 0x245, 1, 0x28C), (0x246, 0x24E, 2, 0x247), (0x370, 0x372, 2, 0x371),
     (0x376, 0x376, 1, 0x377), (0x37F, 0x37F, 1, 0x3F3), (0x386, 0x386, 1, 0x3AC),
     (0x388, 0x38A, 1, 0x3AD), (0x38C, 0x38C, 1, 0x3CC), (0x38E, 0x38F, 1, 0x3CD),
     (0x391, 0x3A1, 1, 0x3B1), (0x3A3, 0x3AB, 1, 0x3C3), (0x3CF, 0x3CF, 1, 0x3D7),
     (0x3D8, 0x3EE, 2, 0x3D9), (0x3F4, 0x3F4, 1, 0x3B8), (0x3F7, 0x3F7, 1, 0x3F8),
     (0x3F9, 0x3F9, 1, 0x3F2), (0x3FA, 0x3FA, 1, 0x3FB), (0x3FD, 0x3FF, 1, 0x37B),
     (0x400, 0x40F, 1, 0x450), (0x410, 0x42F, 1, 0x430), (0x460, 0x480, 2, 0x461),
     (0x48A, 0x4BE, 2, 0x48B), (0x4C0, 0x4C0, 1, 0x4CF), (0x4C1, 0x4CD, 2, 0x4C2),
     (0x4D0, 0x52E, 2, 0x4D1), (0x531, 0x556, 1, 0x561), (0x10A0, 0x10C5, 1, 0x2D00),
     (0x10C7, 0x10C7, 1, 0x2D27), (0x10CD, 0x10CD, 1, 0x2D2D), (0x13A0, 0x13EF, 1, 0xAB70),
     (0x13F0, 0x13F5, 1, 0x13F8), (0x1C90, 0x1CBA, 1, 0x10D0), (0x1CBD, 0x1CBF, 1, 0x10FD),
     (0x1E00, 0x1E94, 2, 0x1E01), (0x1E9E, 0x1E9E, 1, 0xDF), (0x1EA0, 0x1EFE, 2, 0x1EA1),
     (0x1F08, 0x1F0F, 1, 0x1F00), (0x1F18, 0x1F1D, 1, 0x1F10), (0x1F28, 0x1F2F, 1, 0x1F20),
     (0x1F38, 0x1F3F, 1, 0x1F30), (0x1F48, 0x1F4D, 1, 0x1F40), (0x1F59, 0x1F5F, 2, 0x1F51),
     (0x1F68, 0x1F6F, 1, 0x1F60), (0x1F88, 0x1F8F, 1, 0x1F80), (0x1F98, 0x1F9F, 1, 0x1F90),
     (0x1FA8, 0x1FAF, 1, 0x1FA0), (0x1FB8, 0x1FB9, 1, 0x1FB0), (0x1FBA, 0x1FBB, 1, 0x1F70),
     (0x1FBC, 0x1FBC, 1, 0x1FB3), (0x1FC8, 0x1FCB, 1, 0x1F72), (0x1FCC, 0x1FCC, 1, 0x1FC3),
     (0x1FD8, 0x1FD9, 1, 0x1FD0), (0x1FDA, 0x1FDB, 1, 0x1F76), (0x1FE8, 0x1FE9, 1, 0x1FE0),
     (0x1FEA, 0x1FEB, 1, 0x1F7A), (0x1FEC, 0x1FEC, 1, 0x1FE5), (0x1FF8, 0x1FF9, 1, 0x1F78),
     (0x1FFA, 0x1FFB, 1, 0x1F7C), (0x1FFC, 0x1FFC, 1, 0x1FF3), (0x2126, 0x2126, 1, 0x3C9),
     (0x212A, 0x212A, 1, 0x6B), (0x212B, 0x212B, 1, 0xE5), (0x2132, 0x2132, 1, 0x214E),
     (0x2160, 0x216F, 1, 0x2170), (0x2183, 0x2183, 1, 0x2184), (0x24B6, 0x24CF, 1, 0x24D0),
     (0x2C00, 0x2C2F, 1, 0x2C30), (0x2C60, 0x2C60, 1, 0x2C61), (0x2C62, 0x2C62, 1, 0x26B),
     (0x2C63, 0x2C63, 1, 0x1D7D), (0x2C64, 0x2C64, 1, 0x27D), (0x2C67, 0x2C6B, 2, 0x2C68),
     (0x2C6D, 0x2C6D, 1, 0x251), (0x2C6E, 0x2C6E, 1, 0x271), (0x2C6F, 0x2C6F, 1, 0x250),
     (0x2C70, 0x2C70, 1, 0x252), (0x2C72, 0x2C72, 1, 0x2C73), (0x2C75, 0x2C75, 1, 0x2C76),
     (0x2C7E, 0x2C7F, 1, 0x23F), (0x2C80, 0x2CE2, 2, 0x2C81), (0x2CEB, 0x2CED, 2, 0x2CEC),
     (0x2CF2, 0x2CF2, 1, 0x2CF3), (0xA640, 0xA66C, 2, 0xA641), (0xA680, 0xA69A, 2, 0xA681),
     (0xA722, 0xA72E, 2, 0xA723), (0xA732, 0xA76E, 2, 0xA733), (0xA779, 0xA77B, 2, 0xA77A),
     (0xA77D, 0xA77D, 1, 0x1D79), (0xA77E, 0xA786, 2, 0xA77F), (0xA78B, 0xA78B, 1, 0xA78C),
     (0xA78D, 0xA78D, 1, 0x265), (0xA790, 0xA792, 2, 0xA791), (0xA796, 0xA7A8, 2, 0xA797),
     (0xA7AA, 0xA7AA, 1, 0x266), (0xA7AB, 0xA7AB, 1, 0x25C), (0xA7AC, 0xA7AC, 1, 0x261),
     (0xA7AD, 0xA7AD, 1, 0x26C), (0xA7AE, 0xA7AE, 1, 0x26A), (0xA7B0, 0xA7B0, 1, 0x29E),
     (0xA7B1, 0xA7B1, 1, 0x287), (0xA7B2, 0xA7B2, 1, 0x29D), (0xA7B3, 0xA7B3, 1, 0xAB53),
     (0xA7B4, 0xA7C2, 2, 0xA7B5), (0xA7C4, 0xA7C4, 1, 0xA794), (0xA7C5, 0xA7C5, 1, 0x282),
     (0xA7C6, 0xA7C6, 1, 0x1D8E), (0xA7C7, 0xA7C9, 2, 0xA7C8), (0xA7D0, 0xA7D0, 1, 0xA7D1),
     (0xA7D6, 0xA7D8, 2, 0xA7D7), (0xA7F5, 0xA7F5, 1, 0xA7F6), (0xFF21, 0xFF3A, 1, 0xFF41),
     (0x10400, 0x10427, 1, 0x10428), (0x104B0, 0x104D3, 1, 0x104D8),
     (0x10570, 0x10594, 2, 0x10597), (0x10571, 0x10579, 2, 0x10598),
     (0x1057D, 0x10589, 2, 0x105A4), (0x1058D, 0x10591, 2, 0x105B4),
     (0x10595, 0x10595, 1, 0x105BC), (0x10C80, 0x10CB2, 1, 0x10CC0),
     (0x118A0, 0x118BF, 1, 0x118C0), (0x16E40, 0x16E5F, 1, 0x16E60),
     (0x1E900, 0x1E921, 1, 0x1E922)]"

definition upper_ranges :: "(nat \<times> nat \<times> nat \<times> nat) list" where
  "upper_ranges =
    [(0x61, 0x7A, 1, 0x41), (0xB5, 0xB5, 1, 0x39C), (0xE0, 0xF6, 1, 0xC0), (0xF8, 0xFE, 1, 0xD8),
     (0xFF, 0xFF, 1, 0x178), (0x101, 0x12F, 2, 0x100), (0x131, 0x131, 1, 0x49),
     (0x133, 0x137, 2, 0x132), (0x13A, 0x148, 2, 0x139), (0x14B, 0x177, 2, 0x14A),
     (0x17A, 0x17E, 2, 0x179), (0x17F, 0x17F, 1, 0x53), (0x180, 0x180, 1, 0x243),
     (0x183, 0x185, 2, 0x182), (0x188, 0x188, 1, 0x187), (0x18C, 0x18C, 1, 0x18B),
     (0x192, 0x192, 1, 0x191), (0x195, 0x195, 1, 0x1F6), (0x199, 0x199, 1, 0x198),
     (0x19A, 0x19A, 1, 0x23D), (0x19E, 0x19E, 1, 0x220), (0x1A1, 0x1A5, 2, 0x1A0),
     (0x1A8, 0x1A8, 1, 0x1A7), (0x1AD, 0x1AD, 1, 0x1AC), (0x1B0, 0x1B0, 1, 0x1AF),
     (0x1B4, 0x1B6, 2, 0x1B3), (0x1B9, 0x1B9, 1, 0x1B8), (0x1BD, 0x1BD, 1, 0x1BC),
     (0x1BF, 0x1BF, 1, 0x1F7), (0x1C5, 0x1C5, 1, 0x1C4), (0x1C6, 0x1C6, 1, 0x1C4),
     (0x1C8, 0x1C8, 1, 0x1C7), (0x1C9, 0x1C9, 1, 0x1C7), (0x1CB, 0x1CB, 1, 0x1CA),
     (0x1CC, 0x1CC, 1, 0x1CA), (0x1CE, 0x1DC, 2, 0x1CD), (0x1DD, 0x1DD, 1, 0x18E),
     (0x1DF, 0x1EF, 2, 0x1DE), (0x1F2, 0x1F2, 1, 0x1F1), (0x1F3, 0x1F3, 1, 0x1F1),
     (0x1F5, 0x1F5, 1, 0x1F4), (0x1F9, 0x21F, 2, 0x1F8), (0x223, 0x233, 2, 0x222),
     (0x23C, 0x23C, 1, 0x23B), (0x23F, 0x240, 1, 0x2C7E), (0x242, 0x242, 1, 0x241),
     (0x247, 0x24F, 2, 0x246), (0x250, 0x250, 1, 0x2C6F), (0x251, 0x251, 1, 0x2C6D),
     (0x252, 0x252, 1, 0x2C70), (0x253, 0x253, 1, 0x181), (0x254, 0x254, 1, 0x186),
     (0x256, 0x257, 1, 0x189), (0x259, 0x259, 1, 0x18F), (0x25B, 0x25B, 1, 0x190),
     (0x25C, 0x25C, 1, 0xA7AB), (0x260, 0x260, 1, 0x193), (0x261, 0x261, 1, 0xA7AC),
     (0x263, 0x263, 1, 0x194), (0x265, 0x265, 1, 0xA78D), (0x266, 0x266, 1, 0xA7AA),
     (0x268, 0x268, 1, 0x197), (0x269, 0x269, 1, 0x196), (0x26A, 0x26A, 1, 0xA7AE),
     (0x26B, 0x26B, 1, 0x2C62), (0x26C, 0x26C, 1, 0xA7AD), (0x26F, 0x26F, 1, 0x19C),
     (0x271, 0x271, 1, 0x2C6E), (0x272, 0x272, 1, 0x19D), (0x275, 0x275, 1, 0x19F),
     (0x27D, 0x27D, 1, 0x2C64), (0x280, 0x280, 1, 0x1A6), (0x282, 0x282, 1, 0xA7C5),
     (0x283, 0x283, 1, 0x1A9), (0x287, 0x287, 1, 0xA7B1), (0x288, 0x288, 1, 0x1AE),
     (0x289, 0x289, 1, 0x244), (0x28A, 0x28B, 1, 0x1B1), (0x28C, 0x28C, 1, 0x245),
     (0x292, 0x292, 1, 0x1B7), (0x29D, 0x29D, 1, 0xA7B2), (0x29E, 0x29E, 1, 0xA7B0),
     (0x345, 0x345, 1, 0x399), (0x371, 0x373, 2, 0x370), (0x377, 0x377, 1, 0x376),
     (0x37B, 0x37D, 1, 0x3FD), (0x3AC, 0x3AC, 1, 0x386), (0x3AD, 0x3AF, 1, 0x388),
     (0x3B1, 0x3C1, 1, 0x391), (0x3C2, 0x3C2, 1, 0x3A3), (0x3C3, 0x3CB, 1, 0x3A3),
     (0x3CC, 0x3CC, 1, 0x38C), (0x3CD, 0x3CE, 1, 0x38E), (0x3D0, 0x3D0, 1, 0x392),
     (0x3D1, 0x3D1, 1, 0x398), (0x3D5, 0x3D5, 1, 0x3A6), (0x3D6, 0x3D6, 1, 0x3A0),
     (0x3D7, 0x3D7, 1, 0x3CF), (0x3D9, 0x3EF, 2, 0x3D8), (0x3F0, 0x3F0, 1, 0x39A),
     (0x3F1, 0x3F1, 1, 0x3A1), (0x3F2, 0x3F2, 1, 0x3F9), (0x3F3, 0x3F3, 1, 0x37F),
     (0x3F5, 0x3F5, 1, 0x395), (0x3F8, 0x3F8, 1, 0x3F7), (0x3FB, 0x3FB, 1, 0x3FA),
     (0x430, 0x44F, 1, 0x410), (0x450, 0x45F, 1, 0x400), (0x461, 0x481, 2, 0x460),
     (0x48B, 0x4BF, 2, 0x48A), (0x4C2, 0x4CE, 2, 0x4C1), (0x4CF, 0x4CF, 1, 0x4C0),
     (0x4D1, 0x52F, 2, 0x4D0), (0x561, 0x586, 1, 0x531), (0x10D0, 0x10FA, 1, 0x1C90),
     (0x10FD, 0x10FF, 1, 0x1CBD), (0x13F8, 0x13FD, 1, 0x13F0), (0x1C80, 0x1C80, 1, 0x412),
     (0x1C81, 0x1C81, 1, 0x414), (0x1C82, 0x1C82, 1, 0x41E), (0x1C83, 0x1C84, 1, 0x421),
     (0x1C85, 0x1C85, 1, 0x422), (0x1C86, 0x1C86, 1, 0x42A), (0x1C87, 0x1C87, 1, 0x462),
     (0x1C88, 0x1C88, 1, 0xA64A), (0x1D79, 0x1D79, 1, 0xA77D), (0x1D7D, 0x1D7D, 1, 0x2C63),
     (0x1D8E, 0x1D8E, 1, 0xA7C6), (0x1E01, 0x1E95, 2, 0x1E00), (0x1E9B, 0x1E9B, 1, 0x1E60),
     (0x1EA1, 0x1EFF, 2, 0x1EA0), (0x1F00, 0x1F07, 1, 0x1F08), (0x1F10, 0x1F15, 1, 0x1F18),
     (0x1F20, 0x1F27, 1, 0x1F28), (0x1F30, 0x1F37, 1, 0x1F38), (0x1F40, 0x1F45, 1, 0x1F48),
     (0x1F51, 0x1F57, 2, 0x1F59), (0x1F60, 0x1F67, 1, 0x1F68), (0x1F70, 0x1F71, 1, 0x1FBA),
     (0x1F72, 0x1F75, 1, 0x1FC8), (0x1F76, 0x1F77, 1, 0x1FDA), (0x1F78, 0x1F79, 1, 0x1FF8),
     (0x1F7A, 0x1F7B, 1, 0x1FEA), (0x1F7C, 0x1F7D, 1, 0x1FFA), (0x1FB0, 0x1FB1, 1, 0x1FB8),
     (0x1FBE, 0x1FBE, 1, 0x399), (0x1FD0, 0x1FD1, 1, 0x1FD8), (0x1FE0, 0x1FE1, 1, 0x1FE8),
     (0x1FE5, 0x1FE5, 1, 0x1FEC), (0x214E, 0x214E, 1, 0x2132), (0x2170, 0x217F, 1, 0x2160),
     (0x2184, 0x2184, 1, 0x2183), (0x24D0, 0x24E9, 1, 0x24B6), (0x2C30, 0x2C5F, 1, 0x2C00),
     (0x2C61, 0x2C61, 1, 0x2C60), (0x2C65, 0x2C65, 1, 0x23A), (0x2C66, 0x2C66, 1, 0x23E),
     (0x2C68, 0x2C6C, 2, 0x2C67), (0x2C73, 0x2C73, 1, 0x2C72), (0x2C76, 0x2C76, 1, 0x2C75),
     (0x2C81, 0x2CE3, 2, 0x2C80), (0x2CEC, 0x2CEE, 2, 0x2CEB), (0x2CF3, 0x2CF3, 1, 0x2CF2),
     (0x2D00, 0x2D25, 1, 0x10A0), (0x2D27, 0x2D27, 1, 0x10C7), (0x2D2D, 0x2D2D, 1, 0x10CD),
     (0xA641, 0xA66D, 2, 0xA640), (0xA681, 0xA69B, 2, 0xA680), (0xA723, 0xA72F, 2, 0xA722),
     (0xA733, 0xA76F, 2, 0xA732), (0xA77A, 0xA77C, 2, 0xA779), (0xA77F, 0xA787, 2, 0xA77E),
     (0xA78C, 0xA78C, 1, 0xA78B), (0xA791, 0xA793, 2, 0xA790), (0xA794, 0xA794, 1, 0xA7C4),
     (0xA797, 0xA7A9, 2, 0xA796), (0xA7B5, 0xA7C3, 2, 0xA7B4), (0xA7C8, 0xA7CA, 2, 0xA7C7),
     (0xA7D1, 0xA7D1, 1, 0xA7D0), (0xA7D7, 0xA7D9, 2, 0xA7D6), (0xA7F6, 0xA7F6, 1, 0xA7F5),
     (0xAB53, 0xAB53, 1, 0xA7B3), (0xAB70, 0xABBF, 1, 0x13A0), (0xFF41, 0xFF5A, 1, 0xFF21),
     (0x10428, 0x1044F, 1, 0x10400), (0x104D8, 0x104FB, 1, 0x104B0),
     (0x10597, 0x105BB, 2, 0x10570), (0x10598, 0x105A0, 2, 0x10571),
     (0x105A4, 0x105B0, 2, 0x1057D), (0x105B4, 0x105B8, 2, 0x1058D),
     (0x105BC, 0x105BC, 1, 0x10595), (0x10CC0, 0x10CF2, 1, 0x10C80),
     (0x118C0, 0x118DF, 1, 0x118A0), (0x16E60, 0x16E7F, 1, 0x16E40),
     (0x1E922, 0x1E943, 1, 0x1E900)]"

definition special_upper :: "(nat \<times> nat list) list" where
  "special_upper =
    [(0xDF, [0x53, 0x53]), (0x149, [0x2BC, 0x4E]), (0x1F0, [0x4A, 0x30C]),
     (0x390, [0x399, 0x308, 0x301]), (0x3B0, [0x3A5, 0x308, 0x301]), (0x587, [0x535, 0x552]),
     (0x1E96, [0x48, 0x331]), (0x1E97, [0x54, 0x308]), (0x1E98, [0x57, 0x30A]),
     (0x1E99, [0x59, 0x30A]), (0x1E9A, [0x41, 0x2BE]), (0x1F50, [0x3A5, 0x313]),
     (0x1F52, [0x3A5, 0x313, 0x300]), (0x1F54, [0x3A5, 0x313, 0x301]),
     (0x1F56, [0x3A5, 0x313, 0x342]), (0x1F80, [0x1F08, 0x399]), (0x1F81, [0x1F09, 0x399]),
     (0x1F82, [0x1F0A, 0x399]), (0x1F83, [0x1F0B, 0x399]), (0x1F84, [0x1F0C, 0x399]),
     (0x1F85, [0x1F0D, 0x399]), (0x1F86, [0x1F0E, 0x399]), (0x1F87, [0x1F0F, 0x399]),
     (0x1F88, [0x1F08, 0x399]), (0x1F89, [0x1F09, 0x399]), (0x1F8A, [0x1F0A, 0x399]),
     (0x1F8B, [0x1F0B, 0x399]), (0x1F8C, [0x1F0C, 0x399]), (0x1F8D, [0x1F0D, 0x399]),
     (0x1F8E, [0x1F0E, 0x399]), (0x1F8F, [0x1F0F, 0x399]), (0x1F90, [0x1F28, 0x399]),
     (0x1F91, [0x1F29, 0x399]), (0x1F92, [0x1F2A, 0x399]), (0x1F93, [0x1F2B, 0x399]),
     (0x1F94, [0x1F2C, 0x399]), (0x1F95, [0x1F2D, 0x399]), (0x1F96, [0x1F2E, 0x399]),
     (0x1F97, [0x1F2F, 0x399]), (0x1F98, [0x1F28, 0x399]), (0x1F99, [0x1F29, 0x399]),
     (0x1F9A, [0x1F2A, 0x399]), (0x1F9B, [0x1F2B, 0x399]), (0x1F9C, [0x1F2C, 0x399]),
     (0x1F9D, [0x1F2D, 0x399]), (0x1F9E, [0x1F2E, 0x399]), (0x1F9F, [0x1F2F, 0x399]),
     (0x1FA0, [0x1F68, 0x399]), (0x1FA1, [0x1F69, 0x399]), (0x1FA2, [0x1F6A, 0x399]),
     (0x1FA3, [0x1F6B, 0x399]), (0x1FA4, [0x1F6C, 0x399]), (0x1FA5, [0x1F6D, 0x399]),
     (0x1FA6, [0x1F6E, 0x399]), (0x1FA7, [0x1F6F, 0x399]), (0x1FA8, [0x1F68, 0x399]),
     (0x1FA9, [0x1F69, 0x399]), (0x1FAA, [0x1F6A, 0x399]), (0x1FAB, [0x1F6B, 0x399]),
     (0x1FAC, [0x1F6C, 0x399]), (0x1FAD, [0x1F6D, 0x399]), (0x1FAE, [0x1F6E, 0x399]),
     (0x1FAF, [0x1F6F, 0x399]), (0x1FB2, [0x1FBA, 0x399]), (0x1FB3, [0x391, 0x399]),
     (0x1FB4, [0x386, 0x399]), (0x1FB6, [0x391, 0x342]), (0x1FB7, [0x391, 0x342, 0x399]),
     (0x1FBC, [0x391, 0x399]), (0x1FC2, [0x1FCA, 0x399]), (0x1FC3, [0x397, 0x399]),
     (0x1FC4, [0x389, 0x399]), (0x1FC6, [0x397, 0x342]), (0x1FC7, [0x397, 0x342, 0x399]),
     (0x1FCC, [0x397, 0x399]), (0x1FD2, [0x399, 0x308, 0x300]), (0x1FD3, [0x399, 0x308, 0x301]),
     (0x1FD6, [0x399, 0x342]), (0x1FD7, [0x399, 0x308, 0x342]), (0x1FE2, [0x3A5, 0x308, 0x300]),
     (0x1FE3, [0x3A5, 0x308, 0x301]), (0x1FE4, [0x3A1, 0x313]), (0x1FE6, [0x3A5, 0x342]),
     (0x1FE7, [0x3A5, 0x308, 0x342]), (0x1FF2, [0x1FFA, 0x399]), (0x1FF3, [0x3A9, 0x399]),
     (0x1FF4, [0x38F, 0x399]), (0x1FF6, [0x3A9, 0x342]), (0x1FF7, [0x3A9, 0x342, 0x399]),
     (0x1FFC, [0x3A9, 0x399]), (0xFB00, [0x46, 0x46]), (0xFB01, [0x46, 0x49]),
     (0xFB02, [0x46, 0x4C]), (0xFB03, [0x46, 0x46, 0x49]), (0xFB04, [0x46, 0x46, 0x4C]),
     (0xFB05, [0x53, 0x54]), (0xFB06, [0x53, 0x54]), (0xFB13, [0x544, 0x546]),
     (0xFB14, [0x544, 0x535]), (0xFB15, [0x544, 0x53B]), (0xFB16, [0x54E, 0x546]),
     (0xFB17, [0x544, 0x53D])]"

definition cased_ranges :: "(nat \<times> nat) list" where
  "cased_ranges =
    [(0x41, 0x5A), (0x61, 0x7A), (0xAA, 0xAA), (0xB5, 0xB5), (0xBA, 0xBA), (0xC0, 0xD6),
     (0xD8, 0xF6), (0xF8, 0x1BA), (0x1BC, 0x1BF), (0x1C4, 0x293), (0x295, 0x2B8), (0x2C0, 0x2C1),
     (0x2E0, 0x2E4), (0x345, 0x345), (0x370, 0x373), (0x376, 0x377), (0x37A, 0x37D),
     (0x37F, 0x37F), (0x386, 0x386), (0x388, 0x38A), (0x38C, 0x38C), (0x38E, 0x3A1),
     (0x3A3, 0x3F5), (0x3F7, 0x481), (0x48A, 0x52F), (0x531, 0x556), (0x560, 0x588),
     (0x10A0, 0x10C5), (0x10C7, 0x10C7), (0x10CD, 0x10CD), (0x10D0, 0x10FA), (0x10FD, 0x10FF),
     (0x13A0, 0x13F5), (0x13F8, 0x13FD), (0x1C80, 0x1C88), (0x1C90, 0x1CBA), (0x1CBD, 0x1CBF),
     (0x1D00, 0x1DBF), (0x1E00, 0x1F15), (0x1F18, 0x1F1D), (0x1F20, 0x1F45), (0x1F48, 0x1F4D),
     (0x1F50, 0x1F57), (0x1F59, 0x1F59), (0x1F5B, 0x1F5B), (0x1F5D, 0x1F5D), (0x1F5F, 0x1F7D),
     (0x1F80, 0x1FB4), (0x1FB6, 0x1FBC), (0x1FBE, 0x1FBE), (0x1FC2, 0x1FC4), (0x1FC6, 0x1FCC),
     (0x1FD0, 0x1FD3), (0x1FD6, 0x1FDB), (0x1FE0, 0x1FEC), (0x1FF2, 0x1FF4), (0x1FF6, 0x1FFC),
     (0x2071, 0x2071), (0x207F, 0x207F), (0x2090, 0x209C), (0x2102, 0x2102), (0x2107, 0x2107),
     (0x210A, 0x2113), (0x2115, 0x2115), (0x2119, 0x211D), (0x2124, 0x2124), (0x2126, 0x2126),
     (0x2128, 0x2128), (0x212A, 0x212D), (0x212F, 0x2134), (0x2139, 0x2139), (0x213C, 0x213F),
     (0x2145, 0x2149), (0x214E, 0x214E), (0x2160, 0x217F), (0x2183, 0x2184), (0x24B6, 0x24E9),
     (0x2C00, 0x2CE4), (0x2CEB, 0x2CEE), (0x2CF2, 0x2CF3), (0x2D00, 0x2D25), (0x2D27, 0x2D27),
     (0x2D2D, 0x2D2D), (0xA640, 0xA66D), (0xA680, 0xA69D), (0xA722, 0xA787), (0xA78B, 0xA78E),
     (0xA790, 0xA7CA), (0xA7D0, 0xA7D1), (0xA7D3, 0xA7D3), (0xA7D5, 0xA7D9), (0xA7F5, 0xA7F6),
     (0xA7F8, 0xA7FA), (0xAB30, 0xAB5A), (0xAB5C, 0xAB68), (0xAB70, 0xABBF), (0xFB00, 0xFB06),
     (0xFB13, 0xFB17), (0xFF21, 0xFF3A), (0xFF41, 0xFF5A), (0x10400, 0x1044F),
     (0x104B0, 0x104D3), (0x104D8, 0x104FB), (0x10570, 0x1057A), (0x1057C, 0x1058A),
     (0x1058C, 0x10592), (0x10594, 0x10595), (0x10597, 0x105A1), (0x105A3, 0x105B1),
     (0x105B3, 0x105B9), (0x105BB, 0x105BC), (0x10780, 0x10780), (0x10783, 0x10785),
     (0x10787, 0x107B0), (0x107B2, 0x107BA), (0x10C80, 0x10CB2), (0x10CC0, 0x10CF2),
     (0x118A0, 0x118DF), (0x16E40, 0x16E7F), (0x1D400, 0x1D454), (0x1D456, 0x1D49C),
     (0x1D49E, 0x1D49F), (0x1D4A2, 0x1D4A2), (0x1D4A5, 0x1D4A6), (0x1D4A9, 0x1D4AC),
     (0x1D4AE, 0x1D4B9), (0x1D4BB, 0x1D4BB), (0x1D4BD, 0x1D4C3), (0x1D4C5, 0x1D505),
     (0x1D507, 0x1D50A), (0x1D50D, 0x1D514), (0x1D516, 0x1D51C), (0x1D51E, 0x1D539),
     (0x1D53B, 0x1D53E), (0x1D540, 0x1D544), (0x1D546, 0x1D546), (0x1D54A, 0x1D550),
     (0x1D552, 0x1D6A5), (0x1D6A8, 0x1D6C0), (0x1D6C2, 0x1D6DA), (0x1D6DC, 0x1D6FA),
     (0x1D6FC, 0x1D714), (0x1D716, 0x1D734), (0x1D736, 0x1D74E), (0x1D750, 0x1D76E),
     (0x1D770, 0x1D788), (0x1D78A, 0x1D7A8), (0x1D7AA, 0x1D7C2), (0x1D7C4, 0x1D7CB),
     (0x1DF00, 0x1DF09), (0x1DF0B, 0x1DF1E), (0x1E900, 0x1E943), (0x1F130, 0x1F149),
     (0x1F150, 0x1F169), (0x1F170, 0x1F189)]"

definition case_ignorable_ranges :: "(nat \<times> nat) list" where
  "case_ignorable_ranges =
    [(0x27, 0x27), (0x2E, 0x2E), (0x3A, 0x3A), (0x5E, 0x5E), (0x60, 0x60), (0xA8, 0xA8),
     (0xAD, 0xAD), (0xAF, 0xAF), (0xB4, 0xB4), (0xB7, 0xB8), (0x2B0, 0x36F), (0x374, 0x375),
     (0x37A, 0x37A), (0x384, 0x385), (0x387, 0x387), (0x483, 0x489), (0x559, 0x559),
     (0x55F, 0x55F), (0x591, 0x5BD), (0x5BF, 0x5BF), (0x5C1, 0x5C2), (0x5C4, 0x5C5),
     (0x5C7, 0x5C7), (0x5F4, 0x5F4), (0x600, 0x605), (0x610, 0x61A), (0x61C, 0x61C),
     (0x640, 0x640), (0x64B, 0x65F), (0x670, 0x670), (0x6D6, 0x6DD), (0x6DF, 0x6E8),
     (0x6EA, 0x6ED), (0x70F, 0x70F), (0x711, 0x711), (0x730, 0x74A), (0x7A6, 0x7B0),
     (0x7EB, 0x7F5), (0x7FA, 0x7FA), (0x7FD, 0x7FD), (0x816, 0x82D), (0x859, 0x85B),
     (0x888, 0x888), (0x890, 0x891), (0x898, 0x89F), (0x8C9, 0x902), (0x93A, 0x93A),
     (0x93C, 0x93C), (0x941, 0x948), (0x94D, 0x94D), (0x951, 0x957), (0x962, 0x963),
     (0x971, 0x971), (0x981, 0x981), (0x9BC, 0x9BC), (0x9C1, 0x9C4), (0x9CD, 0x9CD),
     (0x9E2, 0x9E3), (0x9FE, 0x9FE), (0xA01, 0xA02), (0xA3C, 0xA3C), (0xA41, 0xA42),
     (0xA47, 0xA48), (0xA4B, 0xA4D), (0xA51, 0xA51), (0xA70, 0xA71), (0xA75, 0xA75),
     (0xA81, 0xA82), (0xABC, 0xABC), (0xAC1, 0xAC5), (0xAC7, 0xAC8), (0xACD, 0xACD),
     (0xAE2, 0xAE3), (0xAFA, 0xAFF), (0xB01, 0xB01), (0xB3C, 0xB3C), (0xB3F, 0xB3F),
     (0xB41, 0xB44), (0xB4D, 0xB4D), (0xB55, 0xB56), (0xB62, 0xB63), (0xB82, 0xB82),
     (0xBC0, 0xBC0), (0xBCD, 0xBCD), (0xC00, 0xC00), (0xC04, 0xC04), (0xC3C, 0xC3C),
     (0xC3E, 0xC40), (0xC46, 0xC48), (0xC4A, 0xC4D), (0xC55, 0xC56), (0xC62, 0xC63),
     (0xC81, 0xC81), (0xCBC, 0xCBC), (0xCBF, 0xCBF), (0xCC6, 0xCC6), (0xCCC, 0xCCD),
     (0xCE2, 0xCE3), (0xD00, 0xD01), (0xD3B, 0xD3C), (0xD41, 0xD44), (0xD4D, 0xD4D),
     (0xD62, 0xD63), (0xD81, 0xD81), (0xDCA, 0xDCA), (0xDD2, 0xDD4), (0xDD6, 0xDD6),
     (0xE31, 0xE31), (0xE34, 0xE3A), (0xE46, 0xE4E), (0xEB1, 0xEB1), (0xEB4, 0xEBC),
     (0xEC6, 0xEC6), (0xEC8, 0xECD), (0xF18, 0xF19), (0xF35, 0xF35), (0xF37, 0xF37),
     (0xF39, 0xF39), (0xF71, 0xF7E), (0xF80, 0xF84), (0xF86, 0xF87), (0xF8D, 0xF97),
     (0xF99, 0xFBC), (0xFC6, 0xFC6), (0x102D, 0x1030), (0x1032, 0x1037), (0x1039, 0x103A),
     (0x103D, 0x103E), (0x1058, 0x1059), (0x105E, 0x1060), (0x1071, 0x1074), (0x1082, 0x1082),
     (0x1085, 0x1086), (0x108D, 0x108D), (0x109D, 0x109D), (0x10FC, 0x10FC), (0x135D, 0x135F),
     (0x1712, 0x1714), (0x1732, 0x1733), (0x1752, 0x1753), (0x1772, 0x1773), (0x17B4, 0x17B5),
     (0x17B7, 0x17BD), (0x17C6, 0x17C6), (0x17C9, 0x17D3), (0x17D7, 0x17D7), (0x17DD, 0x17DD),
     (0x180B, 0x180F), (0x1843, 0x1843), (0x1885, 0x1886), (0x18A9, 0x18A9), (0x1920, 0x1922),
     (0x1927, 0x1928), (0x1932, 0x1932), (0x1939, 0x193B), (0x1A17, 0x1A18), (0x1A1B, 0x1A1B),
     (0x1A56, 0x1A56), (0x1A58, 0x1A5E), (0x1A60, 0x1A60), (0x1A62, 0x1A62), (0x1A65, 0x1A6C),
     (0x1A73, 0x1A7C), (0x1A7F, 0x1A7F), (0x1AA7, 0x1AA7), (0x1AB0, 0x1ACE), (0x1B00, 0x1B03),
     (0x1B34, 0x1B34), (0x1B36, 0x1B3A), (0x1B3C, 0x1B3C), (0x1B42, 0x1B42), (0x1B6B, 0x1B73),
     (0x1B80, 0x1B81), (0x1BA2, 0x1BA5), (0x1BA8, 0x1BA9), (0x1BAB, 0x1BAD), (0x1BE6, 0x1BE6),
     (0x1BE8, 0x1BE9), (0x1BED, 0x1BED), (0x1BEF, 0x1BF1), (0x1C2C, 0x1C33), (0x1C36, 0x1C37),
     (0x1C78, 0x1C7D), (0x1CD0, 0x1CD2), (0x1CD4, 0x1CE0), (0x1CE2, 0x1CE8), (0x1CED, 0x1CED),
     (0x1CF4, 0x1CF4), (0x1CF8, 0x1CF9), (0x1D2C, 0x1D6A), (0x1D78, 0x1D78), (0x1D9B, 0x1DFF),
     (0x1FBD, 0x1FBD), (0x1FBF, 0x1FC1), (0x1FCD, 0x1FCF), (0x1FDD, 0x1FDF), (0x1FED, 0x1FEF),
     (0x1FFD, 0x1FFE), (0x200B, 0x200F), (0x2018, 0x2019), (0x2024, 0x2024), (0x2027, 0x2027),
     (0x202A, 0x202E), (0x2060, 0x2064), (0x2066, 0x206F), (0x2071, 0x2071), (0x207F, 0x207F),
     (0x2090, 0x209C), (0x20D0, 0x20F0), (0x2C7C, 0x2C7D), (0x2CEF, 0x2CF1), (0x2D6F, 0x2D6F),
     (0x2D7F, 0x2D7F), (0x2DE0, 0x2DFF), (0x2E2F, 0x2E2F), (0x3005, 0x3005), (0x302A, 0x302D),
     (0x3031, 0x3035), (0x303B, 0x303B), (0x3099, 0x309E), (0x30FC, 0x30FE), (0xA015, 0xA015),
     (0xA4F8, 0xA4FD), (0xA60C, 0xA60C), (0xA66F, 0xA672), (0xA674, 0xA67D), (0xA67F, 0xA67F),
     (0xA69C, 0xA69F), (0xA6F0, 0xA6F1), (0xA700, 0xA721), (0xA770, 0xA770), (0xA788, 0xA78A),
     (0xA7F2, 0xA7F4), (0xA7F8, 0xA7F9), (0xA802, 0xA802), (0xA806, 0xA806), (0xA80B, 0xA80B),
     (0xA825, 0xA826), (0xA82C, 0xA82C), (0xA8C4, 0xA8C5), (0xA8E0, 0xA8F1), (0xA8FF, 0xA8FF),
     (0xA926, 0xA92D), (0xA947, 0xA951), (0xA980, 0xA982), (0xA9B3, 0xA9B3), (0xA9B6, 0xA9B9),
     (0xA9BC, 0xA9BD), (0xA9CF, 0xA9CF), (0xA9E5, 0xA9E6), (0xAA29, 0xAA2E), (0xAA31, 0xAA32),
     (0xAA35, 0xAA36), (0xAA43, 0xAA43), (0xAA4C, 0xAA4C), (0xAA70, 0xAA70), (0xAA7C, 0xAA7C),
     (0xAAB0, 0xAAB0), (0xAAB2, 0xAAB4), (0xAAB7, 0xAAB8), (0xAABE, 0xAABF), (0xAAC1, 0xAAC1),
     (0xAADD, 0xAADD), (0xAAEC, 0xAAED), (0xAAF3, 0xAAF4), (0xAAF6, 0xAAF6), (0xAB5B, 0xAB5F),
     (0xAB69, 0xAB6B), (0xABE5, 0xABE5), (0xABE8, 0xABE8), (0xABED, 0xABED), (0xFB1E, 0xFB1E),
     (0xFBB2, 0xFBC2), (0xFE00, 0xFE0F), (0xFE13, 0xFE13), (0xFE20, 0xFE2F), (0xFE52, 0xFE52),
     (0xFE55, 0xFE55), (0xFEFF, 0xFEFF), (0xFF07, 0xFF07), (0xFF0E, 0xFF0E), (0xFF1A, 0xFF1A),
     (0xFF3E, 0xFF3E), (0xFF40, 0xFF40), (0xFF70, 0xFF70), (0xFF9E, 0xFF9F), (0xFFE3, 0xFFE3),
     (0xFFF9, 0xFFFB), (0x101FD, 0x101FD), (0x102E0, 0x102E0), (0x10376, 0x1037A),
     (0x10780, 0x10785), (0x10787, 0x107B0), (0x107B2, 0x107BA), (0x10A01, 0x10A03),
     (0x10A05, 0x10A06), (0x10A0C, 0x10A0F), (0x10A38, 0x10A3A), (0x10A3F, 0x10A3F),
     (0x10AE5, 0x10AE6), (0x10D24, 0x10D27), (0x10EAB, 0x10EAC), (0x10F46, 0x10F50),
     (0x10F82, 0x10F85), (0x11001, 0x11001), (0x11038, 0x11046), (0x11070, 0x11070),
     (0x11073, 0x11074), (0x1107F, 0x11081), (0x110B3, 0x110B6), (0x110B9, 0x110BA),
     (0x110BD, 0x110BD), (0x110C2, 0x110C2), (0x110CD, 0x110CD), (0x11100, 0x11102),
     (0x11127, 0x1112B), (0x1112D, 0x11134), (0x11173, 0x11173), (0x11180, 0x11181),
     (0x111B6, 0x111BE), (0x111C9, 0x111CC), (0x111CF, 0x111CF), (0x1122F, 0x11231),
     (0x11234, 0x11234), (0x11236, 0x11237), (0x1123E, 0x1123E), (0x112DF, 0x112DF),
     (0x112E3, 0x112EA), (0x11300, 0x11301), (0x1133B, 0x1133C), (0x11340, 0x11340),
     (0x11366, 0x1136C), (0x11370, 0x11374), (0x11438, 0x1143F), (0x11442, 0x11444),
     (0x11446, 0x11446), (0x1145E, 0x1145E), (0x114B3, 0x114B8), (0x114BA, 0x114BA),
     (0x114BF, 0x114C0), (0x114C2, 0x114C3), (0x115B2, 0x115B5), (0x115BC, 0x115BD),
     (0x115BF, 0x115C0), (0x115DC, 0x115DD), (0x11633, 0x1163A), (0x1163D, 0x1163D),
     (0x1163F, 0x11640), (0x116AB, 0x116AB), (0x116AD, 0x116AD), (0x116B0, 0x116B5),
     (0x116B7, 0x116B7), (0x1171D, 0x1171F), (0x11722, 0x11725), (0x11727, 0x1172B),
     (0x1182F, 0x11837), (0x11839, 0x1183A), (0x1193B, 0x1193C), (0x1193E, 0x1193E),
     (0x11943, 0x11943), (0x119D4, 0x119D7), (0x119DA, 0x119DB), (0x119E0, 0x119E0),
     (0x11A01, 0x11A0A), (0x11A33, 0x11A38), (0x11A3B, 0x11A3E), (0x11A47, 0x11A47),
     (0x11A51, 0x11A56), (0x11A59, 0x11A5B), (0x11A8A, 0x11A96), (0x11A98, 0x11A99),
     (0x11C30, 0x11C36), (0x11C38, 0x11C3D), (0x11C3F, 0x11C3F), (0x11C92, 0x11CA7),
     (0x11CAA, 0x11CB0), (0x11CB2, 0x11CB3), (0x11CB5, 0x11CB6), (0x11D31, 0x11D36),
     (0x11D3A, 0x11D3A), (0x11D3C, 0x11D3D), (0x11D3F, 0x11D45), (0x11D47, 0x11D47),
     (0x11D90, 0x11D91), (0x11D95, 0x11D95), (0x11D97, 0x11D97), (0x11EF3, 0x11EF4),
     (0x13430, 0x13438), (0x16AF0, 0x16AF4), (0x16B30, 0x16B36), (0x16B40, 0x16B43),
     (0x16F4F, 0x16F4F), (0x16F8F, 0x16F9F), (0x16FE0, 0x16FE1), (0x16FE3, 0x16FE4),
     (0x1AFF0, 0x1AFF3), (0x1AFF5, 0x1AFFB), (0x1AFFD, 0x1AFFE), (0x1BC9D, 0x1BC9E),
     (0x1BCA0, 0x1BCA3), (0x1CF00, 0x1CF2D), (0x1CF30, 0x1CF46), (0x1D167, 0x1D169),
     (0x1D173, 0x1D182), (0x1D185, 0x1D18B), (0x1D1AA, 0x1D1AD), (0x1D242, 0x1D244),
     (0x1DA00, 0x1DA36), (0x1DA3B, 0x1DA6C), (0x1DA75, 0x1DA75), (0x1DA84, 0x1DA84),
     (0x1DA9B, 0x1DA9F), (0x1DAA1, 0x1DAAF), (0x1E000, 0x1E006), (0x1E008, 0x1E018),
     (0x1E01B, 0x1E021), (0x1E023, 0x1E024), (0x1E026, 0x1E02A), (0x1E130, 0x1E13D),
     (0x1E2AE, 0x1E2AE), (0x1E2EC, 0x1E2EF), (0x1E8D0, 0x1E8D6), (0x1E944, 0x1E94B),
     (0x1F3FB, 0x1F3FF), (0xE0001, 0xE0001), (0xE0020, 0xE007F), (0xE0100, 0xE01EF)]"

definition in_range :: "nat \<times> nat \<times> nat \<times> nat \<Rightarrow> nat \<Rightarrow> bool" where
  "in_range r c = (case r of (f, l, s, t) \<Rightarrow> f \<le> c \<and> c \<le> l \<and> (c - f) mod s = 0)"

definition shift :: "(nat \<times> nat \<times> nat \<times> nat) list \<Rightarrow> nat \<Rightarrow> nat" where
  "shift rs c =
     (case find (\<lambda>r. in_range r c) rs of
        None \<Rightarrow> c
      | Some (f, l, s, t) \<Rightarrow> t + (c - f))"

definition in_ranges :: "(nat \<times> nat) list \<Rightarrow> nat \<Rightarrow> bool" where
  "in_ranges rs c = list_ex (\<lambda>r. fst r \<le> c \<and> c \<le> snd r) rs"

definition cased :: "nat \<Rightarrow> bool" where
  "cased c = in_ranges cased_ranges c"

definition case_ignorable :: "nat \<Rightarrow> bool" where
  "case_ignorable c = in_ranges case_ignorable_ranges c"

text \<open>
  Lower case of one code point out of context: \<^verbatim>\<open>U+0130\<close> becomes two code points, every
  other one its image in the table.
\<close>

definition lower_cp :: "nat \<Rightarrow> nat list" where
  "lower_cp c = (if c = 0x130 then [0x69, 0x307] else [shift lower_ranges c])"

definition upper_cp :: "nat \<Rightarrow> nat list" where
  "upper_cp c = (case map_of special_upper c of Some us \<Rightarrow> us | None \<Rightarrow> [shift upper_ranges c])"

text \<open>
  The one rule that looks at the context: a capital sigma \<^verbatim>\<open>U+03A3\<close> becomes the final
  small sigma \<^verbatim>\<open>U+03C2\<close> when the nearest code point before it that is not case-ignorable
  is a cased letter and the nearest one after it is not; otherwise it becomes \<^verbatim>\<open>U+03C3\<close>.
  \<open>prev\<close> holds the code points before the current one, nearest first.
\<close>

definition next_is_cased :: "nat list \<Rightarrow> bool" where
  "next_is_cased cs = (case dropWhile case_ignorable cs of [] \<Rightarrow> False | c # _ \<Rightarrow> cased c)"

definition final_sigma :: "nat list \<Rightarrow> nat list \<Rightarrow> bool" where
  "final_sigma prev rest = (next_is_cased prev \<and> \<not> next_is_cased rest)"

fun lower_from :: "nat list \<Rightarrow> nat list \<Rightarrow> nat list" where
  "lower_from prev [] = []"
| "lower_from prev (c # cs) =
     (if c = 0x3A3 then (if final_sigma prev cs then [0x3C2] else [0x3C3]) else lower_cp c)
       @ lower_from (c # prev) cs"

definition toLowerCase :: "jsstring \<Rightarrow> jsstring" where
  "toLowerCase s = code_units (lower_from [] (code_points s))"

definition toUpperCase :: "jsstring \<Rightarrow> jsstring" where
  "toUpperCase s = code_units (concat (map upper_cp (code_points s)))"

section \<open>Cache key\<close>

definition normalizeCityKey :: "jsstring \<Rightarrow> jsstring" where
  "normalizeCityKey city = toLowerCase (trim city)"

section \<open>Category classifier\<close>

record aqi_category =
  label :: jsstring
  color :: jsstring
  level :: jsstring
  healthImplications :: jsstring

text \<open>
  \<^verbatim>\<open>getAqiCategory\<close> is local to the module and its one caller passes a number or
  \<^verbatim>\<open>null\<close> (\<^verbatim>\<open>typeof d.aqi === "number" ? d.aqi : null\<close>), so the argument is a
  \<^typ>\<open>jsnum option\<close> with \<^const>\<open>None\<close> for \<^verbatim>\<open>null\<close>, and \<^verbatim>\<open>Number(aqi)\<close> is the number
  itself.
\<close>

definition getAqiCategory :: "jsnum option \<Rightarrow> aqi_category" where
  "getAqiCategory aqi =
     (case aqi of
        None \<Rightarrow>
          \<lparr> label = lit ''Unknown'', color = lit ''#9E9E9E'', level = lit ''unknown'',
            healthImplications = lit ''Air quality data is not available.'' \<rparr>
      | Some n \<Rightarrow>
          if n = NaN then
            \<lparr> label = lit ''Unknown'', color = lit ''#9E9E9E'', level = lit ''unknown'',
              healthImplications = lit ''Air quality data is not available.'' \<rparr>
          else if js_le n 50 then
            \<lparr> label = lit ''Good'', color = lit ''#009966'', level = lit ''good'',
              healthImplications =
                (lit ''Air quality is considered satisfactory, and air pollution poses little or no risk.'') \<rparr>
          else if js_le n 100 then
            \<lparr> label = lit ''Moderate'', color = lit ''#FFDE33'', level = lit ''moderate'',
              healthImplications =
                (lit ''Air quality is acceptable; however, for some pollutants there may be a moderate health concern for a very small number of people.'') \<rparr>
          else if js_le n 150 then
            \<lparr> label = lit ''Unhealthy for Sensitive Groups'', color = lit ''#FF9933'', level = lit ''usg'',
              healthImplications =
                (lit ''Members of sensitive groups may experience health effects. The general public is not likely to be affected.'') \<rparr>
          else if js_le n 200 then
            \<lparr> label = lit ''Unhealthy'', color = lit ''#CC0033'', level = lit ''unhealthy'',
              healthImplications =
                (lit ''Everyone may begin to experience health effects; members of sensitive groups may experience more serious health effects.'') \<rparr>
          else if js_le n 300 then
            \<lparr> label = lit ''Very Unhealthy'', color = lit ''#660099'', level = lit ''very-unhealthy'',
              healthImplications =
                (lit ''Health warnings of emergency conditions. The entire population is more likely to be affected.'') \<rparr>
          else
            \<lparr> label = lit ''Hazardous'', color = lit ''#7E0023'', level = lit ''hazardous'',
              healthImplications =
                (lit ''Health alert: everyone may experience more serious health effects.'') \<rparr>)"

section \<open>Record normalizer\<close>

record measurement =
  m_value :: jsval
  m_label :: jsstring
  m_unit :: jsstring

record city_info =
  name :: jsval
  geo :: jsval
  url :: jsval

record aqi_info = aqi_category +
  aqi_value :: "jsnum option"

record time_info =
  iso :: jsval
  timezone :: jsval
  raw :: jsval

record meta_info =
  provider :: jsstring
  apiDocs :: jsstring

record aqi_record =
  source :: jsstring
  query :: jsstring
  city :: city_info
  aqi :: aqi_info
  dominantPollutant :: jsval
  measurements :: "(jsstring \<times> measurement) list"
  time :: time_info
  attribution :: jsval
  meta :: meta_info

text \<open>Decimal numeral of a natural number: the property names of array elements.\<close>

function string_of_nat :: "nat \<Rightarrow> jsstring" where
  "string_of_nat n =
     (if n < 10 then [0x30 + n]
      else string_of_nat (n div 10) @ [0x30 + n mod 10])"
  by pat_completeness auto
termination
  by (relation "measure id") auto

text \<open>
  \<^verbatim>\<open>Object.entries(x)\<close> for a truthy \<^verbatim>\<open>x\<close>: the own properties of an object in their
  enumeration order, the elements of an array or the code units of a string under their
  indices, nothing for a number or a boolean.
\<close>

fun object_entries :: "jsval \<Rightarrow> (jsstring \<times> jsval) list" where
  "object_entries (JObj kvs) = kvs"
| "object_entries (JArr xs) = zip (map string_of_nat [0..<length xs]) xs"
| "object_entries (JStr s) = zip (map string_of_nat [0..<length s]) (map (\<lambda>u. JStr [u]) s)"
| "object_entries v = []"

text \<open>
  The assignment \<^verbatim>\<open>obj[k] = v\<close> on a plain object, which is held as the list of its own
  properties in the order of their creation: an existing property keeps its place, a new
  one goes last. The name \<^verbatim>\<open>__proto__\<close> is not stored: assigning an object to it replaces
  the prototype and creates no own property.
\<close>

definition obj_set :: "(jsstring \<times> 'a) list \<Rightarrow> jsstring \<Rightarrow> 'a \<Rightarrow> (jsstring \<times> 'a) list" where
  "obj_set obj k v =
     (if k = lit ''__proto__'' then obj
      else if k \<in> fst ` set obj then map (\<lambda>(k', v'). if k' = k then (k', v) else (k', v')) obj
      else obj @ [(k, v)])"

definition is_number :: "jsval \<Rightarrow> bool" where
  "is_number v = (case v of JNum n \<Rightarrow> True | _ \<Rightarrow> False)"

text \<open>
  The \<^verbatim>\<open>switch\<close> on the lower-cased pollutant code. Every branch assigns the label, so
  the initial \<^verbatim>\<open>key.toUpperCase()\<close> is never the result.
\<close>

definition pollutant_label :: "jsstring \<Rightarrow> jsstring" where
  "pollutant_label pollutantName =
     (if pollutantName = lit ''pm25'' then lit ''PM2.5 (fine particulate matter)''
      else if pollutantName = lit ''pm10'' then lit ''PM10 (coarse particulate matter)''
      else if pollutantName = lit ''o3'' then lit ''Ozone (O'' @ [0x2083] @ lit '')''
      else if pollutantName = lit ''no2'' then lit ''Nitrogen Dioxide (NO'' @ [0x2082] @ lit '')''
      else if pollutantName = lit ''so2'' then lit ''Sulfur Dioxide (SO'' @ [0x2082] @ lit '')''
      else if pollutantName = lit ''co'' then lit ''Carbon Monoxide (CO)''
      else toUpperCase pollutantName)"

definition unit_ugm3 :: jsstring where
  "unit_ugm3 = [0xB5] @ lit ''g/m'' @ [0xB3]"

text \<open>One pass of the loop over \<^verbatim>\<open>Object.entries(d.iaqi)\<close>.\<close>

definition add_measurement ::
  "jsstring \<times> jsval \<Rightarrow> (jsstring \<times> measurement) list \<Rightarrow> (jsstring \<times> measurement) list" where
  "add_measurement e ms =
     (let key = fst e; val = snd e;
          v = (if truthy val \<and> is_number (field_of val (lit ''v'')) then field_of val (lit ''v'') else JNull)
      in if v = JNull \<or> v = JUndefined then ms
         else
           let pollutantName = toLowerCase key
           in obj_set ms pollutantName
                \<lparr> m_value = v, m_label = pollutant_label pollutantName, m_unit = unit_ugm3 \<rparr>)"

definition js_or :: "jsval \<Rightarrow> jsval \<Rightarrow> jsval" where
  "js_or a b = (if truthy a then a else b)"

text \<open>\<^verbatim>\<open>x && x.k ? x.k : dflt\<close>\<close>

definition guarded_field :: "jsval \<Rightarrow> jsstring \<Rightarrow> jsval \<Rightarrow> jsval" where
  "guarded_field x k dflt = (if truthy x \<and> truthy (field_of x k) then field_of x k else dflt)"

definition normalizeAqicnResponse :: "jsval \<Rightarrow> jsstring \<Rightarrow> aqi_record option" where
  "normalizeAqicnResponse rawDoc cityQuery =
     (if \<not> truthy rawDoc \<or> field_of rawDoc (lit ''status'') \<noteq> JStr (lit ''ok'')
         \<or> \<not> truthy (field_of rawDoc (lit ''data''))
      then None
      else
        let d = field_of rawDoc (lit ''data'');
            a = (case field_of d (lit ''aqi'') of JNum n \<Rightarrow> Some n | _ \<Rightarrow> None);
            category = getAqiCategory a;
            ms = (if truthy (field_of d (lit ''iaqi''))
                  then fold add_measurement (object_entries (field_of d (lit ''iaqi''))) []
                  else [])
        in Some
          \<lparr> source = lit ''aqicn.org'',
            query = cityQuery,
            city =
              \<lparr> name = guarded_field (field_of d (lit ''city'')) (lit ''name'') (JStr cityQuery),
                geo = guarded_field (field_of d (lit ''city'')) (lit ''geo'') JNull,
                url = guarded_field (field_of d (lit ''city'')) (lit ''url'') JNull \<rparr>,
            aqi = aqi_category.extend category (aqi_info.fields a),
            dominantPollutant = js_or (field_of d (lit ''dominentpol'')) JNull,
            measurements = ms,
            time =
              \<lparr> iso = guarded_field (field_of d (lit ''time'')) (lit ''iso'') JNull,
                timezone = guarded_field (field_of d (lit ''time'')) (lit ''tz'') JNull,
                raw = js_or (field_of d (lit ''time'')) JNull \<rparr>,
            attribution = js_or (field_of d (lit ''attributions'')) (JArr []),
            meta =
              \<lparr> provider = lit ''World Air Quality Index (WAQI)'',
                apiDocs = lit ''https://aqicn.org/api/'' \<rparr> \<rparr>)"

section \<open>Cache store\<close>

definition CACHE_TTL_MS :: int where
  "CACHE_TTL_MS = 5 * 60 * 1000"

definition MAX_CACHE_ENTRIES :: nat where
  "MAX_CACHE_ENTRIES = 100"

record cache_entry =
  data :: aqi_record
  expiresAt :: int
  lastAccessed :: int

text \<open>
  The module's \<^verbatim>\<open>cache\<close> is a \<^verbatim>\<open>Map\<close>: its entries in insertion order, every key once.
  \<^verbatim>\<open>set\<close> on a key that is present replaces the value where it stands; \<^verbatim>\<open>delete\<close>
  followed by \<^verbatim>\<open>set\<close> moves the key to the end.
\<close>

type_synonym 'v js_map = "(jsstring \<times> 'v) list"

definition Map_get :: "'v js_map \<Rightarrow> jsstring \<Rightarrow> 'v option" where
  "Map_get m k = map_of m k"

definition Map_delete :: "'v js_map \<Rightarrow> jsstring \<Rightarrow> 'v js_map" where
  "Map_delete m k = filter (\<lambda>e. fst e \<noteq> k) m"

definition Map_set :: "'v js_map \<Rightarrow> jsstring \<Rightarrow> 'v \<Rightarrow> 'v js_map" where
  "Map_set m k v =
     (if k \<in> fst ` set m then map (\<lambda>e. if fst e = k then (k, v) else e) m
      else m @ [(k, v)])"

text \<open>
  \<^verbatim>\<open>cache.keys().next().value\<close> is the first key, or \<^verbatim>\<open>undefined\<close> for an empty map;
  \<^verbatim>\<open>if (oldestKey)\<close> tests its truthiness, and the empty string is falsy.
\<close>

definition evictIfNeeded :: "cache_entry js_map \<Rightarrow> cache_entry js_map" where
  "evictIfNeeded m =
     (if length m \<le> MAX_CACHE_ENTRIES then m
      else (case m of
              [] \<Rightarrow> m
            | e # _ \<Rightarrow> let oldestKey = fst e in
                       if oldestKey \<noteq> [] then Map_delete m oldestKey else m))"

text \<open>\<^verbatim>\<open>Date.now()\<close> is the argument \<open>now\<close>, in milliseconds.\<close>

definition getFromCache ::
  "jsstring \<Rightarrow> int \<Rightarrow> cache_entry js_map \<Rightarrow> aqi_record option \<times> cache_entry js_map" where
  "getFromCache cityArg now m =
     (let key = normalizeCityKey cityArg
      in case Map_get m key of
           None \<Rightarrow> (None, m)
         | Some entry \<Rightarrow>
             if expiresAt entry \<le> now then (None, Map_delete m key)
             else (Some (data entry),
                   Map_set (Map_delete m key) key (entry\<lparr>lastAccessed := now\<rparr>)))"

definition setInCache ::
  "jsstring \<Rightarrow> aqi_record \<Rightarrow> int \<Rightarrow> cache_entry js_map \<Rightarrow> cache_entry js_map" where
  "setInCache cityArg rec now m =
     (let key = normalizeCityKey cityArg;
          entry = \<lparr> data = rec, expiresAt = now + CACHE_TTL_MS, lastAccessed = now \<rparr>
      in evictIfNeeded (Map_set m key entry))"

section \<open>Lookup service\<close>

text \<open>
  \<^verbatim>\<open>encodeURIComponent\<close> keeps the unreserved characters and writes every other code
  point as the \<^verbatim>\<open>%XX\<close> escapes of its UTF-8 bytes; a surrogate without its partner makes
  it throw a URIError.
\<close>

definition uri_unreserved :: jsstring where
  "uri_unreserved =
     lit ''ABCDEFGHIJKLMNOPQRSTUVWXYZabcdefghijklmnopqrstuvwxyz0123456789-_.!~*'' @ [0x27]
       @ lit ''()''"

definition utf8 :: "nat \<Rightarrow> nat list" where
  "utf8 c =
     (if c < 0x80 then [c]
      else if c < 0x800 then [0xC0 + c div 0x40, 0x80 + c mod 0x40]
      else if c < 0x10000 then [0xE0 + c div 0x1000, 0x80 + c div 0x40 mod 0x40, 0x80 + c mod 0x40]
      else [0xF0 + c div 0x40000, 0x80 + c div 0x1000 mod 0x40, 0x80 + c div 0x40 mod 0x40,
            0x80 + c mod 0x40])"

definition hex_digit :: "nat \<Rightarrow> nat" where
  "hex_digit n = lit ''0123456789ABCDEF'' ! (n mod 16)"

definition percent :: "nat \<Rightarrow> jsstring" where
  "percent b = [0x25, hex_digit (b div 16), hex_digit b]"

definition encodeURIComponent :: "jsstring \<Rightarrow> error + jsstring" where
  "encodeURIComponent s =
     (let cps = code_points s
      in if list_ex (\<lambda>c. is_high c \<or> is_low c) cps then Inl URIError
         else Inr (concat (map (\<lambda>c. if c \<in> set uri_unreserved then [c]
                                     else concat (map percent (utf8 c))) cps)))"

definition AQICN_BASE_URL :: jsstring where
  "AQICN_BASE_URL = lit ''https://api.waqi.info''"

text \<open>The template literal of the request: the city is encoded first, then the token.\<close>

definition request_url :: "jsstring \<Rightarrow> jsstring \<Rightarrow> error + jsstring" where
  "request_url cityArg tok =
     (case encodeURIComponent cityArg of
        Inl e \<Rightarrow> Inl e
      | Inr c \<Rightarrow>
          (case encodeURIComponent tok of
             Inl e \<Rightarrow> Inl e
           | Inr t \<Rightarrow> Inr (AQICN_BASE_URL @ lit ''/feed/'' @ c @ lit ''/?token='' @ t)))"

text \<open>
  What the outside world gives one call of \<^verbatim>\<open>getCityAqi\<close>: the access token of the
  process environment (\<^const>\<open>None\<close> when the variable is not set), the clock at the
  cache lookup and at the later store, and the transport. A request either fails (a
  network error or the 8 second timeout rejects the promise) or yields a response, whose
  body \<^verbatim>\<open>response.json()\<close> parses (\<^const>\<open>None\<close> when it is not JSON).
\<close>

record http_response =
  ok :: bool
  status :: nat
  statusText :: jsstring
  json :: "jsval option"

datatype fetch_outcome = Rejected | Response http_response

record environment =
  token :: "jsstring option"
  now_lookup :: int
  now_store :: int
  fetch :: "jsstring \<Rightarrow> fetch_outcome"

text \<open>The state: the module's cache and the requests sent so far.\<close>

record service_state =
  cache :: "cache_entry js_map"
  requests :: "jsstring list"

text \<open>
  The returned object is the record with \<^verbatim>\<open>cache: { hit, ttlMs }\<close> added to its
  \<^verbatim>\<open>meta\<close>; \<^const>\<open>None\<close> is the return value \<^verbatim>\<open>null\<close>.
\<close>

record cache_meta =
  hit :: bool
  ttlMs :: int

record lookup_result =
  body :: aqi_record
  meta_cache :: cache_meta

text \<open>
  A cached record is an object, hence truthy, so \<^verbatim>\<open>if (cached)\<close> is the test for a hit.
  \<^verbatim>\<open>!token\<close> holds for an unset variable and for the empty string. Building the request
  throws when the city or the token cannot be encoded. After a response with
  status \<^verbatim>\<open>"ok"\<close> the record is stored only \<^verbatim>\<open>if (normalized)\<close>, and the return expression
  then reads \<^verbatim>\<open>normalized.meta\<close>: when \<^verbatim>\<open>normalized\<close> is \<^verbatim>\<open>null\<close> that read throws a
  TypeError.
\<close>

definition getCityAqi ::
  "jsstring \<Rightarrow> environment \<Rightarrow> service_state \<Rightarrow> (error + lookup_result option) \<times> service_state" where
  "getCityAqi cityArg env st =
     (let (cached, m1) = getFromCache cityArg (now_lookup env) (cache st);
          st1 = st\<lparr>cache := m1\<rparr>
      in case cached of
           Some r \<Rightarrow>
             (Inr (Some \<lparr> body = r, meta_cache = \<lparr> hit = True, ttlMs = CACHE_TTL_MS \<rparr> \<rparr>), st1)
         | None \<Rightarrow>
            (case token env of
               None \<Rightarrow> (Inl MissingToken, st1)
             | Some tok \<Rightarrow>
                 if tok = [] then (Inl MissingToken, st1)
                 else
                   (case request_url cityArg tok of
                      Inl e \<Rightarrow> (Inl e, st1)
                    | Inr url_req \<Rightarrow>
                        let st2 = st1\<lparr>requests := requests st1 @ [url_req]\<rparr>
                        in case fetch env url_req of
                             Rejected \<Rightarrow> (Inl TransportError, st2)
                           | Response response \<Rightarrow>
                               if \<not> ok response
                               then (Inl (HttpStatusError (status response) (statusText response)),
                                     st2)
                               else
                                 (case json response of
                                    None \<Rightarrow> (Inl JsonError, st2)
                                  | Some rawDoc \<Rightarrow>
                                      (case get_prop rawDoc (lit ''status'') of
                                         Inl e \<Rightarrow> (Inl e, st2)
                                       | Inr s \<Rightarrow>
                                           if s \<noteq> JStr (lit ''ok'') then (Inr None, st2)
                                           else
                                             let normalized = normalizeAqicnResponse rawDoc cityArg;
                                                 st3 = (case normalized of
                                                          None \<Rightarrow> st2
                                                        | Some n \<Rightarrow>
                                                            st2\<lparr>cache :=
                                                              setInCache cityArg n (now_store env)
                                                                (cache st2)\<rparr>)
                                             in case normalized of
                                                  None \<Rightarrow> (Inl TypeError, st3)
                                                | Some n \<Rightarrow>
                                                    (Inr (Some \<lparr> body = n,
                                                        meta_cache =
                                                          \<lparr> hit = False, ttlMs = CACHE_TTL_MS \<rparr> \<rparr>),
                                                     st3))))))"

section \<open>Route\<close>

text \<open>
  The handler of \<^verbatim>\<open>GET /api/aqi\<close> in \<^verbatim>\<open>server/index.js\<close>, the one caller of
  \<^verbatim>\<open>getCityAqi\<close>. Its argument is \<^verbatim>\<open>(req.query.city || "").toString()\<close>, the query
  parameter as a string and the empty string when it is missing. The handler trims it,
  answers 400 when nothing is left, and otherwise answers 200 with the result, 404 when
  the result is \<^verbatim>\<open>null\<close>, and 502 when \<^verbatim>\<open>getCityAqi\<close> throws.
\<close>

datatype reply = BadRequest | NotFound | Found lookup_result | BadGateway

definition aqi_route ::
  "jsstring \<Rightarrow> environment \<Rightarrow> service_state \<Rightarrow> reply \<times> service_state" where
  "aqi_route q env st =
     (let cityArg = trim q
      in if cityArg = [] then (BadRequest, st)
         else (case getCityAqi cityArg env st of
                 (Inl e, st') \<Rightarrow> (BadGateway, st')
               | (Inr None, st') \<Rightarrow> (NotFound, st')
               | (Inr (Some r), st') \<Rightarrow> (Found r, st')))"

text \<open>The states of the service: the empty one at start, then one request after another.\<close>

inductive reachable :: "service_state \<Rightarrow> bool" where
  start: "reachable \<lparr> cache = [], requests = [] \<rparr>"
| request: "reachable st \<Longrightarrow> reachable (snd (aqi_route q env st))"

section \<open>Runs and sample data\<close>

text \<open>Successive lookups of one city, at the given clock readings.\<close>

fun lookups :: "jsstring \<Rightarrow> int list \<Rightarrow> cache_entry js_map \<Rightarrow> cache_entry js_map" where
  "lookups cityArg [] m = m"
| "lookups cityArg (t # ts) m = lookups cityArg ts (snd (getFromCache cityArg t m))"

text \<open>
  A provider document for Delhi, with two sub-values that carry no numeric reading, and
  the record it normalizes to.
\<close>

definition delhi_doc :: jsval where
  "delhi_doc =
     JObj [(lit ''status'', JStr (lit ''ok'')),
           (lit ''data'', JObj [(lit ''aqi'', JNum (Fin 164)),
                            (lit ''iaqi'', JObj [(lit ''pm25'', JObj [(lit ''v'', JNum (Fin 89))]),
                                             (lit ''t'', JObj [(lit ''v'', JStr (lit ''n/a''))]),
                                             (lit ''h'', JNull),
                                             (lit ''W'', JObj [(lit ''v'', JNum (Fin 3))])]),
                            (lit ''city'', JObj [(lit ''name'', JStr (lit ''Delhi, India''))]),
                            (lit ''dominentpol'', JStr (lit ''pm25''))])]"

definition delhi_record :: aqi_record where
  "delhi_record =
     \<lparr> source = lit ''aqicn.org'',
       query = lit ''Delhi'',
       city = \<lparr> name = JStr (lit ''Delhi, India''), geo = JNull, url = JNull \<rparr>,
       aqi = \<lparr> label = lit ''Unhealthy'', color = lit ''#CC0033'', level = lit ''unhealthy'',
               healthImplications =
                 (lit ''Everyone may begin to experience health effects; members of sensitive groups may experience more serious health effects.''),
               aqi_value = Some (Fin 164) \<rparr>,
       dominantPollutant = JStr (lit ''pm25''),
       measurements =
         [(lit ''pm25'', \<lparr> m_value = JNum (Fin 89), m_label = lit ''PM2.5 (fine particulate matter)'',
                       m_unit = unit_ugm3 \<rparr>),
          (lit ''w'', \<lparr> m_value = JNum (Fin 3), m_label = lit ''W'', m_unit = unit_ugm3 \<rparr>)],
       time = \<lparr> iso = JNull, timezone = JNull, raw = JNull \<rparr>,
       attribution = JArr [],
       meta = \<lparr> provider = lit ''World Air Quality Index (WAQI)'',
                apiDocs = lit ''https://aqicn.org/api/'' \<rparr> \<rparr>"

text \<open>A transport that answers every request with HTTP 200 and the given document.\<close>

definition answer_with :: "jsval \<Rightarrow> jsstring \<Rightarrow> fetch_outcome" where
  "answer_with doc u = Response \<lparr> ok = True, status = 200, statusText = lit ''OK'', json = Some doc \<rparr>"

definition env_with :: "jsstring option \<Rightarrow> int \<Rightarrow> jsval \<Rightarrow> environment" where
  "env_with tok t doc = \<lparr> token = tok, now_lookup = t, now_store = t, fetch = answer_with doc \<rparr>"

text \<open>A cache holding the Delhi record, stored at time 0.\<close>

definition delhi_state :: service_state where
  "delhi_state =
     \<lparr> cache = [(lit ''delhi'', \<lparr> data = delhi_record, expiresAt = 300000, lastAccessed = 0 \<rparr>)],
       requests = [] \<rparr>"

definition empty_state :: service_state where
  "empty_state = \<lparr> cache = [], requests = [] \<rparr>"

text \<open>A negative answer of the provider, and a success envelope without a payload.\<close>

definition error_doc :: jsval where
  "error_doc = JObj [(lit ''status'', JStr (lit ''error''))]"

definition ok_only_doc :: jsval where
  "ok_only_doc = JObj [(lit ''status'', JStr (lit ''ok''))]"


text \<open>A string with no white space at its ends.\<close>

definition trimmed :: "jsstring \<Rightarrow> bool" where
  "trimmed s = (case s of [] \<Rightarrow> True | u # _ \<Rightarrow> \<not> is_space u \<and> \<not> is_space (last s))"



text \<open>
  The invariant of the cache: every key once, no empty key, at most
  \<open>MAX_CACHE_ENTRIES\<close> entries.
\<close>

definition cache_inv :: "cache_entry js_map \<Rightarrow> bool" where
  "cache_inv m =
     (distinct (map fst m) \<and> [] \<notin> fst ` set m \<and> length m \<le> MAX_CACHE_ENTRIES)"

text \<open>Storing a list of cities, each with the clock reading of its store.\<close>

definition store_all ::
  "(jsstring \<times> int) list \<Rightarrow> aqi_record \<Rightarrow> cache_entry js_map \<Rightarrow> cache_entry js_map" where
  "store_all cs r m = fold (\<lambda>c. setInCache (fst c) r (snd c)) cs m"

text \<open>
  The cities \<^verbatim>\<open>a\<close>, \<^verbatim>\<open>aa\<close>, \<^verbatim>\<open>aaa\<close>, \<dots>, the \<open>i\<close>-th of them stored at time \<open>i\<close>; and the
  same with the empty string in front.
\<close>

definition a_cities :: "nat \<Rightarrow> (jsstring \<times> int) list" where
  "a_cities n = map (\<lambda>i. (replicate (Suc i) 0x61, int i)) [0..<n]"

definition a_cities_from_empty :: "nat \<Rightarrow> (jsstring \<times> int) list" where
  "a_cities_from_empty n = map (\<lambda>i. (replicate i 0x61, int i)) [0..<n]"

text \<open>The keys under which a list of cities is stored.\<close>

definition city_keys :: "(jsstring \<times> int) list \<Rightarrow> jsstring list" where
  "city_keys cs = map (\<lambda>c. normalizeCityKey (fst c)) cs"

text \<open>
  What holds of an entry \<open>(k, x)\<close> of the measurements built from the sub-values \<open>E\<close>:
  its value is a number, read from the \<^verbatim>\<open>v\<close> of a sub-value whose lower-cased code is \<open>k\<close>,
  and label and unit are the fixed ones.
\<close>

definition reading_of :: "(jsstring \<times> jsval) set \<Rightarrow> jsstring \<Rightarrow> measurement \<Rightarrow> bool" where
  "reading_of E k x =
     (is_number (m_value x) \<and> m_label x = pollutant_label k \<and> m_unit x = unit_ugm3
      \<and> (\<exists>e\<in>E. toLowerCase (fst e) = k \<and> field_of (snd e) (lit ''v'') = m_value x))"

section \<open>Literals and code points\<close>

lemma lit_eq_iff [simp]: "lit a = lit b \<longleftrightarrow> a = b"
proof -
  have "inj (of_char :: char \<Rightarrow> nat)" by (rule injI) simp
  then show ?thesis unfolding lit_def by (simp add: inj_map_eq_map)
qed

lemma lit_Nil [simp]: "lit [] = []"
  by (simp add: lit_def)

lemma lit_eq_Nil [simp]: "lit s = [] \<longleftrightarrow> s = []"
  by (simp add: lit_def)

lemma lit_ascii: "list_all (\<lambda>c. of_char c < (0x80::nat)) s \<Longrightarrow> list_all (\<lambda>u. u < 0x80) (lit s)"
  by (simp add: lit_def list_all_iff)

lemma shift_Nil: "shift [] c = c"
  by (simp add: shift_def)

lemma shift_Cons:
  "shift ((f, l, s, t) # rs) c =
     (if f \<le> c \<and> c \<le> l \<and> (c - f) mod s = 0 then t + (c - f) else shift rs c)"
  by (simp add: shift_def in_range_def)

lemma in_ranges_Nil: "in_ranges [] c = False"
  by (simp add: in_ranges_def)

lemma in_ranges_Cons: "in_ranges ((f, l) # rs) c = ((f \<le> c \<and> c \<le> l) \<or> in_ranges rs c)"
  by (simp add: in_ranges_def)

lemmas unicode_eval = shift_Nil shift_Cons in_ranges_Nil in_ranges_Cons lower_cp_def upper_cp_def
  cased_def case_ignorable_def next_is_cased_def final_sigma_def units_of_def code_units_def
  is_high_def is_low_def is_space_def white_space_def trim_def toLowerCase_def toUpperCase_def
  normalizeCityKey_def

lemma code_points_plain: "list_all (\<lambda>u. \<not> is_high u) s \<Longrightarrow> code_points s = s"
  by (induction s rule: code_points.induct) simp_all

lemma code_units_plain: "list_all (\<lambda>c. c < 0x10000) cs \<Longrightarrow> code_units cs = cs"
  by (induction cs) (simp_all add: code_units_def units_of_def)

lemma lower_from_context_free:
  "0x3A3 \<notin> set cs \<Longrightarrow> lower_from prev cs = concat (map lower_cp cs)"
  by (induction cs arbitrary: prev) auto

lemma shift_lower_ascii:
  "c < 0x80 \<Longrightarrow> shift lower_ranges c = (if 0x41 \<le> c \<and> c \<le> 0x5A then c + 0x20 else c)"
  by (simp add: lower_ranges_def shift_Cons shift_Nil)

lemma shift_upper_ascii:
  "c < 0x80 \<Longrightarrow> shift upper_ranges c = (if 0x61 \<le> c \<and> c \<le> 0x7A then c - 0x20 else c)"
  by (simp add: upper_ranges_def shift_Cons shift_Nil)

lemma special_upper_ascii: "c < 0x80 \<Longrightarrow> map_of special_upper c = None"
  by (simp add: special_upper_def)

lemma toLowerCase_ascii:
  assumes "list_all (\<lambda>u. u < 0x80) s"
  shows "toLowerCase s = map (\<lambda>c. if 0x41 \<le> c \<and> c \<le> 0x5A then c + 0x20 else c) s"
proof -
  from assms have p: "list_all (\<lambda>u. \<not> is_high u) s" and n: "0x3A3 \<notin> set s"
    by (auto simp: list_all_iff is_high_def)
  have l: "concat (map lower_cp s) = map (\<lambda>c. if 0x41 \<le> c \<and> c \<le> 0x5A then c + 0x20 else c) s"
    using assms by (induction s) (simp_all add: lower_cp_def shift_lower_ascii)
  have b: "list_all (\<lambda>c. c < 0x10000) (map (\<lambda>c. if 0x41 \<le> c \<and> c \<le> 0x5A then c + 0x20 else c) s)"
    using assms by (auto simp: list_all_iff)
  show ?thesis
    by (simp add: toLowerCase_def code_points_plain [OF p] lower_from_context_free [OF n] l
        code_units_plain [OF b])
qed

lemma toUpperCase_ascii:
  assumes "list_all (\<lambda>u. u < 0x80) s"
  shows "toUpperCase s = map (\<lambda>c. if 0x61 \<le> c \<and> c \<le> 0x7A then c - 0x20 else c) s"
proof -
  from assms have p: "list_all (\<lambda>u. \<not> is_high u) s"
    by (auto simp: list_all_iff is_high_def)
  have l: "concat (map upper_cp s) = map (\<lambda>c. if 0x61 \<le> c \<and> c \<le> 0x7A then c - 0x20 else c) s"
    using assms by (induction s) (simp_all add: upper_cp_def shift_upper_ascii special_upper_ascii)
  have b: "list_all (\<lambda>c. c < 0x10000) (map (\<lambda>c. if 0x61 \<le> c \<and> c \<le> 0x7A then c - 0x20 else c) s)"
    using assms by (auto simp: list_all_iff)
  show ?thesis
    by (simp add: toUpperCase_def code_points_plain [OF p] l code_units_plain [OF b])
qed

lemma key_Delhi: "normalizeCityKey (lit ''Delhi'') = lit ''delhi''"
proof -
  have t: "trim (lit ''Delhi'') = lit ''Delhi''"
    by (simp add: lit_def trim_def is_space_def white_space_def)
  have a: "list_all (\<lambda>u. u < 0x80) (lit ''Delhi'')"
    by (simp add: lit_def)
  show ?thesis
    by (simp add: normalizeCityKey_def t toLowerCase_ascii [OF a]) (simp add: lit_def)
qed

lemma key_DELHI_spaces: "normalizeCityKey (lit ''  DELHI '') = lit ''delhi''"
proof -
  have t: "trim (lit ''  DELHI '') = lit ''DELHI''"
    by (simp add: lit_def trim_def is_space_def white_space_def)
  have a: "list_all (\<lambda>u. u < 0x80) (lit ''DELHI'')"
    by (simp add: lit_def)
  show ?thesis
    by (simp add: normalizeCityKey_def t toLowerCase_ascii [OF a]) (simp add: lit_def)
qed

section \<open>The map operations\<close>

lemma Map_get_None_iff: "Map_get m k = None \<longleftrightarrow> k \<notin> fst ` set m"
  by (simp add: Map_get_def map_of_eq_None_iff)

lemma Map_get_delete: "Map_get (Map_delete m k) k' = (if k' = k then None else Map_get m k')"
  unfolding Map_get_def Map_delete_def by (induction m) auto

lemma Map_delete_absent: "Map_get m k = None \<Longrightarrow> Map_delete m k = m"
  unfolding Map_get_None_iff Map_delete_def by (induction m) auto

lemma Map_set_absent: "Map_get m k = None \<Longrightarrow> Map_set m k v = m @ [(k, v)]"
  by (simp add: Map_get_None_iff Map_set_def)

lemma Map_get_append: "Map_get (m @ [(k, v)]) k' = (case Map_get m k' of Some w \<Rightarrow> Some w | None \<Rightarrow> if k' = k then Some v else None)"
  unfolding Map_get_def by (induction m) (auto split: option.splits)

lemma map_of_replace_other:
  "k' \<noteq> k \<Longrightarrow> map_of (map (\<lambda>e. if fst e = k then (k, v) else e) m) k' = map_of m k'"
  by (induction m) auto

lemma map_of_replace_same:
  "k \<in> fst ` set m \<Longrightarrow> map_of (map (\<lambda>e. if fst e = k then (k, v) else e) m) k = Some v"
  by (induction m) auto

lemma Map_get_set: "Map_get (Map_set m k v) k' = (if k' = k then Some v else Map_get m k')"
proof (cases "k \<in> fst ` set m")
  case True
  then show ?thesis
    by (simp add: Map_set_def Map_get_def map_of_replace_other map_of_replace_same)
next
  case False
  then have "Map_get m k = None" by (simp add: Map_get_None_iff)
  with False show ?thesis
    by (simp add: Map_set_def Map_get_append split: option.splits)
qed

lemma keys_Map_delete: "map fst (Map_delete m k) = filter (\<lambda>x. x \<noteq> k) (map fst m)"
  unfolding Map_delete_def by (induction m) auto

lemma distinct_Map_delete: "distinct (map fst m) \<Longrightarrow> distinct (map fst (Map_delete m k))"
  by (simp add: keys_Map_delete)

lemma keys_Map_set:
  "map fst (Map_set m k v) = (if k \<in> fst ` set m then map fst m else map fst m @ [k])"
  unfolding Map_set_def by (induction m) auto

lemma distinct_Map_set: "distinct (map fst m) \<Longrightarrow> distinct (map fst (Map_set m k v))"
  by (auto simp: keys_Map_set)

lemma length_Map_delete:
  "distinct (map fst m) \<Longrightarrow> Map_get m k = Some e \<Longrightarrow> Suc (length (Map_delete m k)) = length m"
  unfolding Map_get_def Map_delete_def
proof (induction m)
  case Nil
  then show ?case by simp
next
  case (Cons x m)
  show ?case
  proof (cases "fst x = k")
    case True
    with Cons.prems have "k \<notin> fst ` set m" by auto
    then have "filter (\<lambda>e. fst e \<noteq> k) m = m" by (induction m) auto
    with True show ?thesis by simp
  next
    case False
    with Cons show ?thesis by (cases x) auto
  qed
qed

lemma getFromCache_touch:
  "Map_get m (normalizeCityKey c) = Some e \<Longrightarrow> now < expiresAt e \<Longrightarrow>
   getFromCache c now m =
     (Some (data e), Map_delete m (normalizeCityKey c) @ [(normalizeCityKey c, e\<lparr>lastAccessed := now\<rparr>)])"
  by (simp add: getFromCache_def Let_def Map_set_absent Map_get_delete)

lemma getFromCache_expired:
  "Map_get m (normalizeCityKey c) = Some e \<Longrightarrow> expiresAt e \<le> now \<Longrightarrow>
   getFromCache c now m = (None, Map_delete m (normalizeCityKey c))"
  by (simp add: getFromCache_def Let_def)

lemma getFromCache_absent:
  "Map_get m (normalizeCityKey c) = None \<Longrightarrow> getFromCache c now m = (None, m)"
  by (simp add: getFromCache_def Let_def)

lemma getFromCache_miss_cache:
  "fst (getFromCache c now m) = None \<Longrightarrow> snd (getFromCache c now m) = Map_delete m (normalizeCityKey c)"
  by (auto simp: getFromCache_def Let_def Map_delete_absent split: option.splits if_splits)

lemma lookups_hits:
  "Map_get m (normalizeCityKey c) = Some e \<Longrightarrow> \<forall>t\<in>set ts. t < expiresAt e \<Longrightarrow>
   Map_get (lookups c ts m) (normalizeCityKey c) = Some (e\<lparr>lastAccessed := last (lastAccessed e # ts)\<rparr>)"
proof (induction ts arbitrary: m e)
  case Nil
  then show ?case by simp
next
  case (Cons t ts)
  from Cons.prems have lt: "t < expiresAt e" by simp
  let ?e' = "e\<lparr>lastAccessed := t\<rparr>"
  have "Map_get (snd (getFromCache c t m)) (normalizeCityKey c) = Some ?e'"
    by (simp add: getFromCache_touch [OF Cons.prems(1) lt] Map_get_append Map_get_delete)
  moreover have "\<forall>u\<in>set ts. u < expiresAt ?e'" using Cons.prems by simp
  ultimately have "Map_get (lookups c ts (snd (getFromCache c t m))) (normalizeCityKey c)
      = Some (?e'\<lparr>lastAccessed := last (lastAccessed ?e' # ts)\<rparr>)"
    by (rule Cons.IH)
  then show ?case by simp
qed

lemma evictIfNeeded_Cons:
  "evictIfNeeded (e # rest) =
     (if length (e # rest) \<le> MAX_CACHE_ENTRIES \<or> fst e = [] then e # rest
      else Map_delete (e # rest) (fst e))"
  by (simp add: evictIfNeeded_def Let_def)

lemma evict_keeps_last:
  assumes "Map_get m k = None"
  shows "Map_get (evictIfNeeded (m @ [(k, v)])) k = Some v"
proof (cases m)
  case Nil
  then show ?thesis by (simp add: evictIfNeeded_def MAX_CACHE_ENTRIES_def Map_get_def)
next
  case (Cons x xs)
  from assms have new: "Map_get (m @ [(k, v)]) k = Some v"
    by (simp add: Map_get_append)
  from Cons assms have "fst x \<noteq> k" by (auto simp: Map_get_None_iff)
  then have "Map_get (evictIfNeeded (x # (xs @ [(k, v)]))) k = Map_get (x # (xs @ [(k, v)])) k"
    unfolding evictIfNeeded_Cons by (simp add: Map_get_delete del: length_Cons)
  with new Cons show ?thesis by simp
qed

lemma setInCache_present:
  assumes "length m0 \<le> MAX_CACHE_ENTRIES"
  shows "Map_get (setInCache c r t0 m0) (normalizeCityKey c) =
           Some \<lparr> data = r, expiresAt = t0 + CACHE_TTL_MS, lastAccessed = t0 \<rparr>"
proof (cases "Map_get m0 (normalizeCityKey c)")
  case None
  then show ?thesis
    by (simp add: setInCache_def Let_def Map_set_absent evict_keeps_last)
next
  case (Some e)
  then have "normalizeCityKey c \<in> fst ` set m0"
    using Map_get_None_iff [of m0 "normalizeCityKey c"] by auto
  then have "length (Map_set m0 (normalizeCityKey c) v) = length m0" for v
    by (simp add: Map_set_def)
  with assms show ?thesis
    by (simp add: setInCache_def Let_def evictIfNeeded_def Map_get_set)
qed

lemma getCityAqi_negative:
  assumes miss: "fst (getFromCache cityArg (now_lookup env) (cache st)) = None"
    and tok: "token env = Some tok" "tok \<noteq> []"
    and url: "request_url cityArg tok = Inr u"
    and resp: "fetch env u = Response response" "ok response" "json response = Some rawDoc"
    and stat: "get_prop rawDoc (lit ''status'') = Inr s" "s \<noteq> JStr (lit ''ok'')"
  shows "getCityAqi cityArg env st =
           (Inr None, \<lparr> cache = Map_delete (cache st) (normalizeCityKey cityArg),
                        requests = requests st @ [u] \<rparr>)"
proof -
  obtain m1 where g: "getFromCache cityArg (now_lookup env) (cache st) = (None, m1)"
    using miss by (cases "getFromCache cityArg (now_lookup env) (cache st)") simp
  have "m1 = Map_delete (cache st) (normalizeCityKey cityArg)"
    using getFromCache_miss_cache [OF miss] g by simp
  with g tok url resp stat show ?thesis
    by (simp add: getCityAqi_def Let_def)
qed

lemma unreserved_ascii: "u \<in> set uri_unreserved \<Longrightarrow> u < 0x80"
  by (auto simp: uri_unreserved_def lit_def)

lemma encodeURIComponent_unreserved:
  assumes "list_all (\<lambda>u. u \<in> set uri_unreserved) s"
  shows "encodeURIComponent s = Inr s"
proof -
  from assms have a: "list_all (\<lambda>u. u < 0x80) s"
    by (auto simp: list_all_iff dest: unreserved_ascii)
  then have p: "list_all (\<lambda>u. \<not> is_high u) s" and q: "\<not> list_ex (\<lambda>c. is_high c \<or> is_low c) s"
    by (auto simp: list_all_iff list_ex_iff is_high_def is_low_def)
  have "concat (map (\<lambda>c. if c \<in> set uri_unreserved then [c] else concat (map percent (utf8 c))) s) = s"
    using assms by (induction s) simp_all
  with q show ?thesis
    by (simp add: encodeURIComponent_def code_points_plain [OF p])
qed

lemma url_Delhi:
  "request_url (lit ''Delhi'') (lit ''tok'') = Inr (lit ''https://api.waqi.info/feed/Delhi/?token=tok'')"
proof -
  have "encodeURIComponent (lit ''Delhi'') = Inr (lit ''Delhi'')"
    by (rule encodeURIComponent_unreserved) (simp add: uri_unreserved_def lit_def)
  moreover have "encodeURIComponent (lit ''tok'') = Inr (lit ''tok'')"
    by (rule encodeURIComponent_unreserved) (simp add: uri_unreserved_def lit_def)
  ultimately show ?thesis
    by (simp add: request_url_def AQICN_BASE_URL_def lit_def)
qed

section \<open>The measurement loop\<close>

lemma obj_set_subset: "set (obj_set ms k v) \<subseteq> insert (k, v) (set ms)"
  by (auto simp: obj_set_def split: if_splits)

lemma add_measurement_skip:
  "\<not> is_number (field_of (snd e) (lit ''v'')) \<Longrightarrow> add_measurement e acc = acc"
  by (simp add: add_measurement_def Let_def)

lemma add_measurement_inv:
  assumes "\<forall>p\<in>set acc. reading_of E (fst p) (snd p)" and "e \<in> E"
  shows "\<forall>p\<in>set (add_measurement e acc). reading_of E (fst p) (snd p)"
proof (cases "is_number (field_of (snd e) (lit ''v''))")
  case False
  with assms(1) show ?thesis by (simp add: add_measurement_skip)
next
  case True
  let ?x = "\<lparr> m_value = field_of (snd e) (lit ''v''), m_label = pollutant_label (toLowerCase (fst e)),
              m_unit = unit_ugm3 \<rparr>"
  from True have obj: "truthy (snd e)" by (cases "snd e") (simp_all add: is_number_def)
  from True have nn: "field_of (snd e) (lit ''v'') \<noteq> JNull" "field_of (snd e) (lit ''v'') \<noteq> JUndefined"
    by (auto simp: is_number_def)
  have eq: "add_measurement e acc = obj_set acc (toLowerCase (fst e)) ?x"
    using True obj nn by (simp add: add_measurement_def Let_def)
  have "reading_of E (toLowerCase (fst e)) ?x"
    using True assms(2) by (auto simp: reading_of_def)
  with assms(1) show ?thesis
    unfolding eq using obj_set_subset [of acc "toLowerCase (fst e)" ?x] by auto
qed

lemma fold_add_measurement_inv:
  "set es \<subseteq> E \<Longrightarrow> \<forall>p\<in>set acc. reading_of E (fst p) (snd p) \<Longrightarrow>
   \<forall>p\<in>set (fold add_measurement es acc). reading_of E (fst p) (snd p)"
proof (induction es arbitrary: acc)
  case Nil
  then show ?case by simp
next
  case (Cons e es)
  from Cons.prems have "e \<in> E" "set es \<subseteq> E" by auto
  then show ?case
    using Cons.IH [OF \<open>set es \<subseteq> E\<close> add_measurement_inv [OF Cons.prems(2) \<open>e \<in> E\<close>]] by simp
qed

lemma normalize_measurements:
  assumes "normalizeAqicnResponse rawDoc q = Some r"
  shows "measurements r =
           (if truthy (field_of (field_of rawDoc (lit ''data'')) (lit ''iaqi''))
            then fold add_measurement (object_entries (field_of (field_of rawDoc (lit ''data'')) (lit ''iaqi''))) []
            else [])"
  using assms by (auto simp: normalizeAqicnResponse_def Let_def split: if_splits)

lemma pollutant_label_unknown:
  "k \<notin> set [(lit ''pm25''), (lit ''pm10''), (lit ''o3''), (lit ''no2''), (lit ''so2''), (lit ''co'')] \<Longrightarrow>
   pollutant_label k = toUpperCase k"
  by (simp add: pollutant_label_def)

lemma lower_pm25: "toLowerCase (lit ''pm25'') = lit ''pm25''"
proof -
  have a: "list_all (\<lambda>u. u < 0x80) (lit ''pm25'')" by (simp add: lit_def)
  show ?thesis by (simp add: toLowerCase_ascii [OF a]) (simp add: lit_def)
qed

lemma lower_W: "toLowerCase (lit ''W'') = lit ''w''"
proof -
  have a: "list_all (\<lambda>u. u < 0x80) (lit ''W'')" by (simp add: lit_def)
  show ?thesis by (simp add: toLowerCase_ascii [OF a]) (simp add: lit_def)
qed

lemma upper_w: "toUpperCase (lit ''w'') = lit ''W''"
proof -
  have a: "list_all (\<lambda>u. u < 0x80) (lit ''w'')" by (simp add: lit_def)
  show ?thesis by (simp add: toUpperCase_ascii [OF a]) (simp add: lit_def)
qed

lemma normalize_delhi: "normalizeAqicnResponse delhi_doc (lit ''Delhi'') = Some delhi_record"
  by (simp add: normalizeAqicnResponse_def delhi_doc_def delhi_record_def getAqiCategory_def
      guarded_field_def js_or_def add_measurement_def is_number_def obj_set_def
      lower_pm25 lower_W upper_w pollutant_label_def
      aqi_category.extend_def aqi_info.fields_def)

section \<open>Trimming\<close>




lemma trim_trimmed: "trimmed s \<Longrightarrow> trim s = s"
proof (cases s)
  case Nil
  then show ?thesis by (simp add: trim_def)
next
  case (Cons u us)
  assume "trimmed s"
  with Cons have f: "\<not> is_space u" and l: "\<not> is_space (last s)"
    by (simp_all add: trimmed_def)
  from Cons f have d: "dropWhile is_space s = s" by simp
  from Cons have "s = butlast s @ [last s]" by simp
  then have rs: "rev s = last s # rev (butlast s)"
    by (metis rev.simps(2) rev_append rev_rev_ident append_Nil rev.simps(1) append_Cons)
  have "dropWhile is_space (last s # rev (butlast s)) = last s # rev (butlast s)"
    using l by simp
  then have "dropWhile is_space (rev s) = rev s" by (simp only: rs)
  with d show ?thesis by (simp add: trim_def)
qed

lemma trimmed_trim: "trimmed (trim s)"
proof (cases "trim s")
  case Nil
  then show ?thesis by (simp add: trimmed_def)
next
  case (Cons u us)
  let ?t = "dropWhile is_space s"
  let ?r = "dropWhile is_space (rev ?t)"
  have ts: "trim s = rev ?r" by (simp add: trim_def)
  with Cons have rne: "?r \<noteq> []" by auto
  then have h: "\<not> is_space (hd ?r)" by (rule hd_dropWhile)
  from rne have "last (rev ?r) = hd ?r" by (simp add: last_rev)
  with h ts have l: "\<not> is_space (last (trim s))" by simp
  have tne: "?t \<noteq> []"
  proof
    assume e: "?t = []"
    have "?r = []" unfolding e by simp
    with rne show False ..
  qed
  then have ht: "\<not> is_space (hd ?t)" by (rule hd_dropWhile)
  obtain p where p: "rev ?t = p @ ?r"
    by (metis takeWhile_dropWhile_id)
  from rne p have "last ?r = last (rev ?t)" by (metis last_appendR)
  also from tne have "\<dots> = hd ?t" by (simp add: last_rev)
  finally have "last ?r = hd ?t" .
  moreover from rne have "hd (rev ?r) = last ?r" by (simp add: hd_rev)
  ultimately have "hd (trim s) = hd ?t" using ts by simp
  with ht Cons have "\<not> is_space u" by simp
  with l Cons show ?thesis by (simp add: trimmed_def)
qed

lemma trim_idem: "trim (trim s) = trim s"
  by (rule trim_trimmed [OF trimmed_trim])

section \<open>Lower case\<close>

lemma code_points_Nil_iff: "code_points s = [] \<longleftrightarrow> s = []"
  by (induction s rule: code_points.induct) simp_all

lemma lower_from_Nil_iff: "lower_from prev cs = [] \<longleftrightarrow> cs = []"
  by (cases cs) (simp_all add: lower_cp_def)

lemma code_units_Nil_iff: "code_units cs = [] \<longleftrightarrow> cs = []"
  by (cases cs) (simp_all add: code_units_def units_of_def)

lemma toLowerCase_Nil_iff: "toLowerCase s = [] \<longleftrightarrow> s = []"
  by (simp add: toLowerCase_def code_units_Nil_iff lower_from_Nil_iff code_points_Nil_iff)

lemma key_of_trimmed_nonempty: "trim q \<noteq> [] \<Longrightarrow> normalizeCityKey (trim q) \<noteq> []"
  by (simp add: normalizeCityKey_def trim_idem toLowerCase_Nil_iff)





section \<open>The cache invariant\<close>

lemma cache_inv_Map_delete: "cache_inv m \<Longrightarrow> cache_inv (Map_delete m k)"
proof -
  assume i: "cache_inv m"
  have "length (Map_delete m k) \<le> length m" by (simp add: Map_delete_def)
  moreover have "fst ` set (Map_delete m k) \<subseteq> fst ` set m" by (auto simp: Map_delete_def)
  ultimately show ?thesis
    using i distinct_Map_delete [of m k] by (auto simp: cache_inv_def)
qed

lemma length_Map_set_present: "k \<in> fst ` set m \<Longrightarrow> length (Map_set m k v) = length m"
  by (simp add: Map_set_def)

lemma keys_set_Map_set: "fst ` set (Map_set m k v) = insert k (fst ` set m)"
proof -
  have "set (map fst (Map_set m k v)) = insert k (set (map fst m))"
    unfolding keys_Map_set by auto
  then show ?thesis by simp
qed

lemma Map_delete_first:
  assumes "distinct (map fst (x # xs))"
  shows "Map_delete (x # xs) (fst x) = xs"
proof -
  from assms have "fst x \<notin> fst ` set xs" by simp
  then have "filter (\<lambda>e. fst e \<noteq> fst x) xs = xs" by (induction xs) auto
  then show ?thesis by (simp add: Map_delete_def)
qed

lemma setInCache_present_key:
  assumes "cache_inv m" and "Map_get m (normalizeCityKey c) \<noteq> None"
  shows "setInCache c r now m =
           Map_set m (normalizeCityKey c)
             \<lparr> data = r, expiresAt = now + CACHE_TTL_MS, lastAccessed = now \<rparr>"
proof -
  from assms(2) have "normalizeCityKey c \<in> fst ` set m" by (simp add: Map_get_None_iff)
  then have "length (Map_set m (normalizeCityKey c) v) = length m" for v
    by (rule length_Map_set_present)
  with assms(1) show ?thesis
    by (simp add: setInCache_def Let_def evictIfNeeded_def cache_inv_def)
qed

lemma setInCache_room:
  assumes "Map_get m (normalizeCityKey c) = None" and "length m < MAX_CACHE_ENTRIES"
  shows "setInCache c r now m =
           m @ [(normalizeCityKey c,
                 \<lparr> data = r, expiresAt = now + CACHE_TTL_MS, lastAccessed = now \<rparr>)]"
  using assms by (simp add: setInCache_def Let_def Map_set_absent evictIfNeeded_def)

lemma setInCache_full:
  assumes "cache_inv m" and "Map_get m (normalizeCityKey c) = None"
    and "length m = MAX_CACHE_ENTRIES"
  shows "setInCache c r now m =
           tl m @ [(normalizeCityKey c,
                    \<lparr> data = r, expiresAt = now + CACHE_TTL_MS, lastAccessed = now \<rparr>)]"
proof -
  let ?e = "\<lparr> data = r, expiresAt = now + CACHE_TTL_MS, lastAccessed = now \<rparr>"
  from assms(3) obtain x xs where m: "m = x # xs"
    by (cases m) (simp_all add: MAX_CACHE_ENTRIES_def)
  from assms(1) m have ne: "fst x \<noteq> []" by (auto simp: cache_inv_def)
  from assms(2) have "normalizeCityKey c \<notin> fst ` set m" by (simp add: Map_get_None_iff)
  with assms(1) have d: "distinct (map fst (x # (xs @ [(normalizeCityKey c, ?e)])))"
    unfolding m by (auto simp: cache_inv_def)
  have big: "\<not> length (x # (xs @ [(normalizeCityKey c, ?e)])) \<le> MAX_CACHE_ENTRIES"
    using assms(3) m by simp
  have "setInCache c r now m = evictIfNeeded (x # (xs @ [(normalizeCityKey c, ?e)]))"
    using assms(2) by (simp add: setInCache_def Let_def Map_set_absent m)
  also have "\<dots> = Map_delete (x # (xs @ [(normalizeCityKey c, ?e)])) (fst x)"
    unfolding evictIfNeeded_Cons using big ne by simp
  also have "\<dots> = xs @ [(normalizeCityKey c, ?e)]"
    by (rule Map_delete_first [OF d])
  finally show ?thesis by (simp add: m)
qed

lemma cache_inv_setInCache:
  assumes "cache_inv m" and "normalizeCityKey c \<noteq> []"
  shows "cache_inv (setInCache c r now m)"
proof -
  let ?k = "normalizeCityKey c"
  let ?e = "\<lparr> data = r, expiresAt = now + CACHE_TTL_MS, lastAccessed = now \<rparr>"
  from assms(1) have d: "distinct (map fst m)" and n: "[] \<notin> fst ` set m"
    and l: "length m \<le> MAX_CACHE_ENTRIES"
    by (simp_all add: cache_inv_def)
  show ?thesis
  proof (cases "Map_get m ?k")
    case (Some e)
    then have p: "Map_get m ?k \<noteq> None" by simp
    then have "?k \<in> fst ` set m" by (simp add: Map_get_None_iff)
    then have "length (Map_set m ?k ?e) = length m" by (rule length_Map_set_present)
    with d n l assms(2) show ?thesis
      unfolding setInCache_present_key [OF assms(1) p] cache_inv_def
      by (simp add: distinct_Map_set keys_set_Map_set)
  next
    case None
    then have nk: "?k \<notin> fst ` set m" by (simp add: Map_get_None_iff)
    show ?thesis
    proof (cases "length m < MAX_CACHE_ENTRIES")
      case True
      with d n nk assms(2) show ?thesis
        unfolding setInCache_room [OF None True] cache_inv_def by auto
    next
      case False
      with l have full: "length m = MAX_CACHE_ENTRIES" by simp
      then obtain x xs where m: "m = x # xs"
        by (cases m) (simp_all add: MAX_CACHE_ENTRIES_def)
      with d n nk assms(2) full show ?thesis
        unfolding setInCache_full [OF assms(1) None full] cache_inv_def by auto
    qed
  qed
qed

lemma cache_inv_getFromCache: "cache_inv m \<Longrightarrow> cache_inv (snd (getFromCache c now m))"
proof -
  assume i: "cache_inv m"
  let ?k = "normalizeCityKey c"
  show ?thesis
  proof (cases "Map_get m ?k")
    case None
    with i show ?thesis by (simp add: getFromCache_absent)
  next
    case (Some e)
    show ?thesis
    proof (cases "expiresAt e \<le> now")
      case True
      with i show ?thesis
        by (simp add: getFromCache_expired [OF Some True] cache_inv_Map_delete)
    next
      case False
      then have lt: "now < expiresAt e" by simp
      from i have d: "distinct (map fst m)" and n: "[] \<notin> fst ` set m"
        and l: "length m \<le> MAX_CACHE_ENTRIES"
        by (simp_all add: cache_inv_def)
      from Some have "?k \<in> fst ` set m"
        using Map_get_None_iff [of m ?k] by auto
      with n have kne: "?k \<noteq> []" by metis
      have len: "Suc (length (Map_delete m ?k)) = length m"
        by (rule length_Map_delete [OF d Some])
      have keys: "?k \<notin> fst ` set (Map_delete m ?k)" "fst ` set (Map_delete m ?k) \<subseteq> fst ` set m"
        by (auto simp: Map_delete_def)
      with n have "[] \<notin> fst ` set (Map_delete m ?k)" by auto
      with keys len l kne distinct_Map_delete [OF d, of ?k] show ?thesis
        unfolding getFromCache_touch [OF Some lt] cache_inv_def by auto
    qed
  qed
qed

lemma cache_inv_getCityAqi:
  assumes "cache_inv (cache st)" and "normalizeCityKey c \<noteq> []"
  shows "cache_inv (cache (snd (getCityAqi c env st)))"
proof -
  obtain cached m1 where g: "getFromCache c (now_lookup env) (cache st) = (cached, m1)"
    by (cases "getFromCache c (now_lookup env) (cache st)")
  from cache_inv_getFromCache [OF assms(1), of c "now_lookup env"] g
  have i1: "cache_inv m1" by simp
  then have "cache_inv (setInCache c n t m1)" for n t
    by (rule cache_inv_setInCache [OF _ assms(2)])
  with i1 g show ?thesis
    by (auto simp: getCityAqi_def Let_def
        split: option.splits sum.splits fetch_outcome.splits if_splits)
qed

lemma cache_inv_aqi_route:
  assumes "cache_inv (cache st)"
  shows "cache_inv (cache (snd (aqi_route q env st)))"
proof (cases "trim q = []")
  case True
  with assms show ?thesis by (simp add: aqi_route_def)
next
  case False
  then have k: "normalizeCityKey (trim q) \<noteq> []" by (rule key_of_trimmed_nonempty)
  have "cache (snd (aqi_route q env st)) = cache (snd (getCityAqi (trim q) env st))"
    using False by (simp add: aqi_route_def Let_def split: prod.splits sum.splits option.splits)
  with cache_inv_getCityAqi [OF assms k] show ?thesis by simp
qed

lemma reachable_inv: "reachable st \<Longrightarrow> cache_inv (cache st)"
proof (induction rule: reachable.induct)
  case start
  show ?case by (simp add: cache_inv_def)
next
  case (request st q env)
  then show ?case by (simp add: cache_inv_aqi_route)
qed

section \<open>Storing many cities\<close>

lemma city_keys_snoc: "city_keys (cs @ [c]) = city_keys cs @ [normalizeCityKey (fst c)]"
  by (simp add: city_keys_def)

lemma length_city_keys: "length (city_keys cs) = length cs"
  by (simp add: city_keys_def)

lemma city_keys_tl: "city_keys (tl cs) = tl (city_keys cs)"
  by (simp add: city_keys_def map_tl)

lemma city_keys_hd: "cs \<noteq> [] \<Longrightarrow> hd (city_keys cs) = normalizeCityKey (fst (hd cs))"
  by (simp add: city_keys_def hd_map)

lemma store_all_snoc: "store_all (cs @ [c]) r m = setInCache (fst c) r (snd c) (store_all cs r m)"
  by (simp add: store_all_def)

lemma store_all_keys:
  assumes "distinct (city_keys cs)"
    and "[] \<notin> set (city_keys cs)"
  shows "cache_inv (store_all cs r [])
       \<and> map fst (store_all cs r []) =
           drop (length cs - MAX_CACHE_ENTRIES) (city_keys cs)"
  using assms
proof (induction cs rule: rev_induct)
  case Nil
  show ?case by (simp add: store_all_def cache_inv_def city_keys_def)
next
  case (snoc c cs)
  let ?ks = "city_keys cs"
  let ?k = "normalizeCityKey (fst c)"
  let ?m = "store_all cs r []"
  let ?e = "\<lparr> data = r, expiresAt = snd c + CACHE_TTL_MS, lastAccessed = snd c \<rparr>"
  from snoc.prems have d: "distinct ?ks" and n: "[] \<notin> set ?ks"
    and knew: "?k \<notin> set ?ks" and kne: "?k \<noteq> []"
    unfolding city_keys_snoc by auto
  from snoc.IH [OF d n] have i: "cache_inv ?m"
    and keys: "map fst ?m = drop (length cs - MAX_CACHE_ENTRIES) ?ks"
    by simp_all
  from keys have "set (map fst ?m) \<subseteq> set ?ks" by (simp add: set_drop_subset)
  with knew have "?k \<notin> fst ` set ?m" by auto
  then have absent: "Map_get ?m ?k = None" by (simp add: Map_get_None_iff)
  from keys have "length (map fst ?m) = length (drop (length cs - MAX_CACHE_ENTRIES) ?ks)"
    by (rule arg_cong)
  then have len: "length ?m = length cs - (length cs - MAX_CACHE_ENTRIES)"
    by (simp add: length_city_keys)
  have inv: "cache_inv (store_all (cs @ [c]) r [])"
    unfolding store_all_snoc by (rule cache_inv_setInCache [OF i kne])
  have "map fst (store_all (cs @ [c]) r []) =
      drop (length (cs @ [c]) - MAX_CACHE_ENTRIES) (city_keys (cs @ [c]))"
  proof (cases "length ?m < MAX_CACHE_ENTRIES")
    case True
    with len have small: "length cs < MAX_CACHE_ENTRIES" by arith
    then show ?thesis
      unfolding store_all_snoc setInCache_room [OF absent True]
      using keys by (simp add: length_city_keys city_keys_snoc)
  next
    case False
    with i have full: "length ?m = MAX_CACHE_ENTRIES" by (simp add: cache_inv_def)
    with len have big: "MAX_CACHE_ENTRIES \<le> length cs" by arith
    have "map fst (tl ?m) = drop (Suc (length cs - MAX_CACHE_ENTRIES)) ?ks"
      using keys by (simp add: map_tl drop_Suc tl_drop)
    moreover have "Suc (length cs - MAX_CACHE_ENTRIES) = Suc (length cs) - MAX_CACHE_ENTRIES"
      using big by arith
    moreover have "Suc 0 - MAX_CACHE_ENTRIES = 0" by (simp add: MAX_CACHE_ENTRIES_def)
    ultimately show ?thesis
      unfolding store_all_snoc setInCache_full [OF i absent full]
      using big by (simp add: length_city_keys city_keys_snoc)
  qed
  with inv show ?case by simp
qed

lemma key_replicate_a: "normalizeCityKey (replicate n 0x61) = replicate n 0x61"
proof -
  have s: "\<not> is_space 0x61" by (simp add: is_space_def white_space_def)
  have d: "dropWhile is_space (replicate n 0x61) = replicate n 0x61"
    by (cases n) (simp_all add: s)
  have a: "list_all (\<lambda>u. u < 0x80) (replicate n (0x61::nat))"
    by (simp add: list_all_iff)
  have "trim (replicate n 0x61) = replicate n 0x61"
    by (simp add: trim_def d s)
  then show ?thesis
    by (simp add: normalizeCityKey_def toLowerCase_ascii [OF a])
qed

lemma a_cities_keys:
  "city_keys (a_cities n) = map (\<lambda>i. replicate (Suc i) 0x61) [0..<n]"
  by (simp add: city_keys_def a_cities_def key_replicate_a del: replicate_Suc)

lemma replicate_a_inj: "inj (\<lambda>i. replicate (Suc i) (0x61::nat))"
proof (rule injI)
  fix i j :: nat
  assume "replicate (Suc i) (0x61::nat) = replicate (Suc j) 0x61"
  then have "length (replicate (Suc i) (0x61::nat)) = length (replicate (Suc j) (0x61::nat))"
    by (rule arg_cong)
  then show "i = j" by simp
qed

lemma a_cities_distinct: "distinct (city_keys (a_cities n))"
proof -
  have "inj_on (\<lambda>i. replicate (Suc i) (0x61::nat)) (set [0..<n])"
    by (rule inj_on_subset [OF replicate_a_inj]) simp
  then show ?thesis
    unfolding a_cities_keys by (simp only: distinct_map distinct_upt simp_thms)
qed

lemma a_cities_nonempty: "[] \<notin> set (city_keys (a_cities n))"
  unfolding a_cities_keys by (auto simp del: replicate_Suc)

lemma a_cities_stored:
  "cache_inv (store_all (a_cities n) r [])
   \<and> map fst (store_all (a_cities n) r []) =
       map (\<lambda>i. replicate (Suc i) 0x61) [n - MAX_CACHE_ENTRIES..<n]"
proof -
  have "drop (n - MAX_CACHE_ENTRIES) (map (\<lambda>i. replicate (Suc i) (0x61::nat)) [0..<n]) =
      map (\<lambda>i. replicate (Suc i) 0x61) [n - MAX_CACHE_ENTRIES..<n]"
    by (simp add: drop_map del: replicate_Suc)
  moreover have "length (a_cities n) = n" by (simp add: a_cities_def)
  ultimately show ?thesis
    using store_all_keys [OF a_cities_distinct a_cities_nonempty, of n r]
    by (simp only: a_cities_keys)
qed

text \<open>
  The bound rests on the keys not being empty. \<^verbatim>\<open>if (oldestKey)\<close> takes the empty string
  for no key at all, so with the key \<^verbatim>\<open>""\<close> as the oldest one nothing is evicted; the
  route never passes an empty city on, and only a direct call of \<^verbatim>\<open>getCityAqi\<close> with an
  empty or blank city can store that key.
\<close>

lemma empty_key_is_not_evicted:
  "store_all (a_cities_from_empty n) r [] =
     map (\<lambda>i. (replicate i 0x61,
               \<lparr> data = r, expiresAt = int i + CACHE_TTL_MS, lastAccessed = int i \<rparr>)) [0..<n]"
proof (induction n)
  case 0
  then show ?case by (simp add: store_all_def a_cities_from_empty_def)
next
  case (Suc n)
  let ?f = "\<lambda>i. (replicate i (0x61::nat),
               \<lparr> data = r, expiresAt = int i + CACHE_TTL_MS, lastAccessed = int i \<rparr>)"
  let ?m = "map ?f [0..<n]"
  have step: "store_all (a_cities_from_empty (Suc n)) r [] =
      setInCache (replicate n 0x61) r (int n) ?m"
    using Suc.IH by (simp add: store_all_def a_cities_from_empty_def)
  have "replicate n (0x61::nat) \<notin> fst ` set ?m"
  proof
    assume "replicate n (0x61::nat) \<in> fst ` set ?m"
    then obtain i where "i < n" "replicate n (0x61::nat) = replicate i 0x61" by auto
    then have "length (replicate n (0x61::nat)) = length (replicate i (0x61::nat))" by simp
    with \<open>i < n\<close> show False by simp
  qed
  then have "Map_get ?m (replicate n 0x61) = None" by (simp add: Map_get_None_iff)
  then have set: "Map_set ?m (replicate n 0x61) e = ?m @ [(replicate n 0x61, e)]" for e
    by (rule Map_set_absent)
  have ev: "evictIfNeeded (?m @ [x]) = ?m @ [x]" for x
  proof (cases n)
    case 0
    then show ?thesis by (simp add: evictIfNeeded_def MAX_CACHE_ENTRIES_def)
  next
    case (Suc k)
    then have "?m @ [x] = ?f 0 # (map ?f [1..<n] @ [x])"
      by (simp add: upt_conv_Cons del: upt_Suc)
    then show ?thesis by (simp add: evictIfNeeded_Cons del: upt_Suc)
  qed
  show ?case
    unfolding step by (simp add: setInCache_def Let_def key_replicate_a set ev)
qed

lemma empty_key_overflow: "length (store_all (a_cities_from_empty 101) r []) = 101"
  by (simp add: empty_key_is_not_evicted)

lemma a_cities_100_absent:
  "Map_get (store_all (a_cities 100) r []) (normalizeCityKey (replicate 101 0x61)) = None"
proof -
  have "replicate 101 (0x61::nat) \<notin> set (map (\<lambda>i. replicate (Suc i) 0x61) [0..<100])"
  proof
    assume "replicate 101 (0x61::nat) \<in> set (map (\<lambda>i. replicate (Suc i) 0x61) [0..<100])"
    then obtain i where "i < 100" "replicate 101 (0x61::nat) = replicate (Suc i) 0x61" by auto
    then have "length (replicate 101 (0x61::nat)) = length (replicate (Suc i) (0x61::nat))"
      by simp
    with \<open>i < 100\<close> show False by simp
  qed
  moreover have "map fst (store_all (a_cities 100) r []) = map (\<lambda>i. replicate (Suc i) 0x61) [0..<100]"
    using a_cities_stored [of 100 r] by (simp add: MAX_CACHE_ENTRIES_def)
  ultimately have "replicate 101 (0x61::nat) \<notin> set (map fst (store_all (a_cities 100) r []))"
    by simp
  then show ?thesis by (simp add: Map_get_None_iff key_replicate_a)
qed

lemma a_cities_100_length: "length (store_all (a_cities 100) r []) = MAX_CACHE_ENTRIES"
proof -
  have "map fst (store_all (a_cities 100) r []) = map (\<lambda>i. replicate (Suc i) 0x61) [0..<100]"
    using a_cities_stored [of 100 r] by (simp add: MAX_CACHE_ENTRIES_def)
  then have "length (map fst (store_all (a_cities 100) r [])) =
      length (map (\<lambda>i. replicate (Suc i) (0x61::nat)) [0..<100])"
    by (rule arg_cong)
  then show ?thesis by (simp add: MAX_CACHE_ENTRIES_def)
qed

section \<open>Category buckets\<close>

text \<open>
  C2. \<^verbatim>\<open>getAqiCategory\<close> classifies by inclusive upper bounds: \<^verbatim>\<open>null\<close> and NaN give the
  label Unknown; a value of at most 50 gives Good, above 50 and at most 100 Moderate, above
  100 and at most 150 Unhealthy for Sensitive Groups, above 150 and at most 200 Unhealthy,
  above 200 and at most 300 Very Unhealthy, above 300 Hazardous. The infinities fall in the
  first and the last bucket.
\<close>

theorem getAqiCategory_buckets:
  "label (getAqiCategory None) = lit ''Unknown''
   \<and> label (getAqiCategory (Some NaN)) = lit ''Unknown''
   \<and> (v \<le> 50 \<longrightarrow> label (getAqiCategory (Some (Fin v))) = lit ''Good'')
   \<and> (50 < v \<and> v \<le> 100 \<longrightarrow> label (getAqiCategory (Some (Fin v))) = lit ''Moderate'')
   \<and> (100 < v \<and> v \<le> 150 \<longrightarrow>
        label (getAqiCategory (Some (Fin v))) = lit ''Unhealthy for Sensitive Groups'')
   \<and> (150 < v \<and> v \<le> 200 \<longrightarrow> label (getAqiCategory (Some (Fin v))) = lit ''Unhealthy'')
   \<and> (200 < v \<and> v \<le> 300 \<longrightarrow> label (getAqiCategory (Some (Fin v))) = lit ''Very Unhealthy'')
   \<and> (300 < v \<longrightarrow> label (getAqiCategory (Some (Fin v))) = lit ''Hazardous'')
   \<and> label (getAqiCategory (Some NInf)) = lit ''Good''
   \<and> label (getAqiCategory (Some PInf)) = lit ''Hazardous''"
  by (simp add: getAqiCategory_def)

theorem getAqiCategory_buckets_witness:
  "label (getAqiCategory (Some (Fin 50))) = lit ''Good''
   \<and> label (getAqiCategory (Some (Fin 100))) = lit ''Moderate''
   \<and> label (getAqiCategory (Some (Fin 150))) = lit ''Unhealthy for Sensitive Groups''
   \<and> label (getAqiCategory (Some (Fin 200))) = lit ''Unhealthy''
   \<and> label (getAqiCategory (Some (Fin 300))) = lit ''Very Unhealthy''
   \<and> label (getAqiCategory (Some (Fin 301))) = lit ''Hazardous''"
  using getAqiCategory_buckets [of 50] getAqiCategory_buckets [of 100]
    getAqiCategory_buckets [of 150] getAqiCategory_buckets [of 200]
    getAqiCategory_buckets [of 300] getAqiCategory_buckets [of 301]
  by simp

section \<open>Lookups that need no request\<close>

text \<open>
  C10. When the normalized key of the requested city is cached and unexpired,
  \<^verbatim>\<open>getCityAqi\<close> returns the cached record with \<^verbatim>\<open>hit: true\<close> and sends no request, whatever
  the environment holds as access token: the token is read only after a miss.
\<close>

theorem cache_hit_needs_no_token:
  assumes "Map_get (cache st) (normalizeCityKey cityArg) = Some entry"
    and "now_lookup env < expiresAt entry"
  shows "fst (getCityAqi cityArg env st) =
           Inr (Some \<lparr> body = data entry, meta_cache = \<lparr> hit = True, ttlMs = CACHE_TTL_MS \<rparr> \<rparr>)
         \<and> requests (snd (getCityAqi cityArg env st)) = requests st"
  using assms by (simp add: getCityAqi_def getFromCache_touch)

theorem cache_hit_needs_no_token_witness:
  "token (env_with None 10 JNull) = None
   \<and> fst (getCityAqi (lit ''  DELHI '') (env_with None 10 JNull) delhi_state) =
       Inr (Some \<lparr> body = delhi_record, meta_cache = \<lparr> hit = True, ttlMs = 300000 \<rparr> \<rparr>)
   \<and> requests (snd (getCityAqi (lit ''  DELHI '') (env_with None 10 JNull) delhi_state)) = []"
proof -
  have k: "normalizeCityKey (lit ''  DELHI '') = lit ''delhi''"
    by (rule key_DELHI_spaces)
  have g: "Map_get (cache delhi_state) (normalizeCityKey (lit ''  DELHI '')) =
      Some \<lparr> data = delhi_record, expiresAt = 300000, lastAccessed = 0 \<rparr>"
    by (simp add: k delhi_state_def Map_get_def)
  have t: "now_lookup (env_with None 10 JNull)
      < expiresAt \<lparr> data = delhi_record, expiresAt = 300000, lastAccessed = 0 \<rparr>"
    by (simp add: env_with_def)
  show ?thesis
    using cache_hit_needs_no_token [OF g t]
    by (simp add: env_with_def delhi_state_def CACHE_TTL_MS_def)
qed

text \<open>
  C6. On a cache miss with no access token (the variable unset or empty), \<^verbatim>\<open>getCityAqi\<close>
  fails with the missing-token error and no request has been sent.
\<close>

theorem missing_token_before_fetch:
  assumes "fst (getFromCache cityArg (now_lookup env) (cache st)) = None"
    and "token env = None \<or> token env = Some []"
  shows "fst (getCityAqi cityArg env st) = Inl MissingToken
         \<and> requests (snd (getCityAqi cityArg env st)) = requests st"
  using assms by (auto simp: getCityAqi_def split: prod.splits option.splits)

theorem missing_token_before_fetch_witness:
  "fst (getFromCache (lit ''Delhi'') (now_lookup (env_with None 10 delhi_doc)) (cache empty_state)) = None
   \<and> token (env_with None 10 delhi_doc) = None
   \<and> fst (getCityAqi (lit ''Delhi'') (env_with None 10 delhi_doc) empty_state) = Inl MissingToken
   \<and> requests (snd (getCityAqi (lit ''Delhi'') (env_with None 10 delhi_doc) empty_state)) = []"
proof -
  have m: "fst (getFromCache (lit ''Delhi'') (now_lookup (env_with None 10 delhi_doc)) (cache empty_state)) = None"
    by (simp add: getFromCache_def empty_state_def Map_get_def)
  have t: "token (env_with None 10 delhi_doc) = None \<or> token (env_with None 10 delhi_doc) = Some []"
    by (simp add: env_with_def)
  show ?thesis
    using m t missing_token_before_fetch [OF m t] by (simp add: env_with_def empty_state_def)
qed

section \<open>Expiry and touch\<close>

text \<open>
  C8. For a key whose entry has expired at lookup time (\<^verbatim>\<open>expiresAt <= now\<close>),
  \<^verbatim>\<open>getFromCache\<close> deletes the entry and returns nothing, and the cache has one entry
  less. For a key whose entry is unexpired it returns the stored record, and the entry,
  with \<^verbatim>\<open>lastAccessed\<close> set to the time of the lookup, becomes the last one of the map.
\<close>

theorem getFromCache_expiry_and_touch:
  assumes "distinct (map fst m)"
    and "Map_get m (normalizeCityKey cityArg) = Some entry"
  shows "(expiresAt entry \<le> now \<longrightarrow>
            fst (getFromCache cityArg now m) = None
          \<and> Map_get (snd (getFromCache cityArg now m)) (normalizeCityKey cityArg) = None
          \<and> Suc (length (snd (getFromCache cityArg now m))) = length m)
       \<and> (now < expiresAt entry \<longrightarrow>
            fst (getFromCache cityArg now m) = Some (data entry)
          \<and> snd (getFromCache cityArg now m) =
              Map_delete m (normalizeCityKey cityArg)
                @ [(normalizeCityKey cityArg, entry\<lparr>lastAccessed := now\<rparr>)]
          \<and> Map_get (snd (getFromCache cityArg now m)) (normalizeCityKey cityArg)
              = Some (entry\<lparr>lastAccessed := now\<rparr>)
          \<and> length (snd (getFromCache cityArg now m)) = length m)"
proof (intro conjI impI)
  assume e: "expiresAt entry \<le> now"
  show "fst (getFromCache cityArg now m) = None"
    by (simp add: getFromCache_expired [OF assms(2) e])
  show "Map_get (snd (getFromCache cityArg now m)) (normalizeCityKey cityArg) = None"
    by (simp add: getFromCache_expired [OF assms(2) e] Map_get_delete)
  show "Suc (length (snd (getFromCache cityArg now m))) = length m"
    by (simp add: getFromCache_expired [OF assms(2) e] length_Map_delete [OF assms])
next
  assume l: "now < expiresAt entry"
  show "fst (getFromCache cityArg now m) = Some (data entry)"
    by (simp add: getFromCache_touch [OF assms(2) l])
  show "snd (getFromCache cityArg now m) =
      Map_delete m (normalizeCityKey cityArg)
        @ [(normalizeCityKey cityArg, entry\<lparr>lastAccessed := now\<rparr>)]"
    by (simp add: getFromCache_touch [OF assms(2) l])
  show "Map_get (snd (getFromCache cityArg now m)) (normalizeCityKey cityArg)
      = Some (entry\<lparr>lastAccessed := now\<rparr>)"
    by (simp add: getFromCache_touch [OF assms(2) l] Map_get_append Map_get_delete)
  show "length (snd (getFromCache cityArg now m)) = length m"
    using length_Map_delete [OF assms] by (simp add: getFromCache_touch [OF assms(2) l])
qed

theorem getFromCache_expiry_and_touch_witness:
  "fst (getFromCache (lit ''Delhi'') 300000 (cache delhi_state)) = None
   \<and> length (snd (getFromCache (lit ''Delhi'') 300000 (cache delhi_state))) = 0
   \<and> fst (getFromCache (lit ''Delhi'') 299999 (cache delhi_state)) = Some delhi_record
   \<and> snd (getFromCache (lit ''Delhi'') 299999 (cache delhi_state)) =
       [(lit ''delhi'', \<lparr> data = delhi_record, expiresAt = 300000, lastAccessed = 299999 \<rparr>)]"
proof -
  have d: "distinct (map fst (cache delhi_state))"
    by (simp add: delhi_state_def)
  have g: "Map_get (cache delhi_state) (normalizeCityKey (lit ''Delhi'')) =
      Some \<lparr> data = delhi_record, expiresAt = 300000, lastAccessed = 0 \<rparr>"
    by (simp add: key_Delhi delhi_state_def Map_get_def)
  show ?thesis
    using getFromCache_expiry_and_touch [OF d g, of 300000]
      getFromCache_expiry_and_touch [OF d g, of 299999]
    by (simp add: key_Delhi delhi_state_def Map_delete_def)
qed

text \<open>
  C9. A hit does not extend the lifetime of an entry. After \<^verbatim>\<open>setInCache\<close> at time \<open>t0\<close>
  and any number of lookups of the city before \<open>t0 + CACHE_TTL_MS\<close>, the entry still holds
  the stored record and the \<^verbatim>\<open>expiresAt\<close> fixed by \<^verbatim>\<open>setInCache\<close>; only \<^verbatim>\<open>lastAccessed\<close> has
  moved. A lookup at or after that time finds nothing.
\<close>

theorem hits_keep_expiry:
  assumes "length m0 \<le> MAX_CACHE_ENTRIES"
    and "\<forall>t\<in>set ts. t < t0 + CACHE_TTL_MS"
  shows "Map_get (lookups c ts (setInCache c r t0 m0)) (normalizeCityKey c) =
           Some \<lparr> data = r, expiresAt = t0 + CACHE_TTL_MS, lastAccessed = last (t0 # ts) \<rparr>
       \<and> (t0 + CACHE_TTL_MS \<le> t \<longrightarrow>
            fst (getFromCache c t (lookups c ts (setInCache c r t0 m0))) = None)"
proof -
  let ?e = "\<lparr> data = r, expiresAt = t0 + CACHE_TTL_MS, lastAccessed = t0 \<rparr>"
  have s: "Map_get (setInCache c r t0 m0) (normalizeCityKey c) = Some ?e"
    by (rule setInCache_present [OF assms(1)])
  have b: "\<forall>t\<in>set ts. t < expiresAt ?e" using assms(2) by simp
  have g: "Map_get (lookups c ts (setInCache c r t0 m0)) (normalizeCityKey c) =
      Some (?e\<lparr>lastAccessed := last (lastAccessed ?e # ts)\<rparr>)"
    by (rule lookups_hits [OF s b])
  then have g': "Map_get (lookups c ts (setInCache c r t0 m0)) (normalizeCityKey c) =
      Some \<lparr> data = r, expiresAt = t0 + CACHE_TTL_MS, lastAccessed = last (t0 # ts) \<rparr>"
    by simp
  have "fst (getFromCache c t (lookups c ts (setInCache c r t0 m0))) = None"
    if "t0 + CACHE_TTL_MS \<le> t"
    using that by (simp add: getFromCache_expired [OF g'])
  with g' show ?thesis by blast
qed

theorem hits_keep_expiry_witness:
  "Map_get (lookups (lit ''Delhi'') [1000, 2000, 299999] (setInCache (lit ''Delhi'') delhi_record 0 []))
      (lit ''delhi'') = Some \<lparr> data = delhi_record, expiresAt = 300000, lastAccessed = 299999 \<rparr>
   \<and> fst (getFromCache (lit ''Delhi'') 300000
        (lookups (lit ''Delhi'') [1000, 2000, 299999] (setInCache (lit ''Delhi'') delhi_record 0 []))) = None"
proof -
  have l: "length ([] :: cache_entry js_map) \<le> MAX_CACHE_ENTRIES" by simp
  have b: "\<forall>t\<in>set [1000, 2000, 299999]. t < 0 + CACHE_TTL_MS"
    by (simp add: CACHE_TTL_MS_def)
  show ?thesis
    using hits_keep_expiry [OF l b, of "lit ''Delhi''" delhi_record 300000]
    by (simp add: key_Delhi CACHE_TTL_MS_def)
qed

section \<open>Answers of the provider\<close>

text \<open>
  C1. A document with status \<^verbatim>\<open>"ok"\<close> and no data payload normalizes to \<^verbatim>\<open>null\<close>. On a
  cache miss \<^verbatim>\<open>getCityAqi\<close> then stores nothing, but it does not return \<^verbatim>\<open>null\<close>: the read
  of \<^verbatim>\<open>normalized.meta\<close> throws a TypeError.
\<close>

theorem ok_without_data_throws:
  "fst (getCityAqi (lit ''Delhi'') (env_with (Some (lit ''tok'')) 10 ok_only_doc) empty_state) = Inl TypeError
   \<and> cache (snd (getCityAqi (lit ''Delhi'') (env_with (Some (lit ''tok'')) 10 ok_only_doc) empty_state)) = []"
  by (simp add: getCityAqi_def getFromCache_def Let_def Map_get_def empty_state_def env_with_def
      answer_with_def ok_only_doc_def normalizeAqicnResponse_def url_Delhi)

text \<open>
  C5, as stated, fails when the miss comes from an expired entry: the lookup has removed
  that entry, so the cache is not the one before the call.
\<close>

theorem negative_result_changes_cache:
  "fst (getFromCache (lit ''Delhi'') 300000 (cache delhi_state)) = None
   \<and> get_prop error_doc (lit ''status'') = Inr (JStr (lit ''error''))
   \<and> fst (getCityAqi (lit ''Delhi'') (env_with (Some (lit ''tok'')) 300000 error_doc) delhi_state) = Inr None
   \<and> cache (snd (getCityAqi (lit ''Delhi'') (env_with (Some (lit ''tok'')) 300000 error_doc) delhi_state))
       \<noteq> cache delhi_state
   \<and> length (cache (snd (getCityAqi (lit ''Delhi'') (env_with (Some (lit ''tok'')) 300000 error_doc) delhi_state)))
       < length (cache delhi_state)"
  by (simp add: getCityAqi_def getFromCache_def Let_def Map_get_def Map_delete_def key_Delhi
      delhi_state_def env_with_def answer_with_def error_doc_def url_Delhi)

text \<open>
  C5, amended. For a document whose status is not \<^verbatim>\<open>"ok"\<close>, \<^verbatim>\<open>getCityAqi\<close> on a cache miss
  returns \<^verbatim>\<open>null\<close> and stores nothing: the cache afterwards is the cache before without
  the entry of the requested key (the same cache when the key was not cached, the cache
  without the expired entry otherwise). The key is absent afterwards, and a following
  lookup of the city with a token sends a request again.
\<close>

theorem negative_result_not_stored:
  assumes miss: "fst (getFromCache cityArg (now_lookup env) (cache st)) = None"
    and tok: "token env = Some tok" "tok \<noteq> []"
    and url: "request_url cityArg tok = Inr u"
    and resp: "fetch env u = Response response" "ok response" "json response = Some rawDoc"
    and stat: "get_prop rawDoc (lit ''status'') = Inr s" "s \<noteq> JStr (lit ''ok'')"
  shows "fst (getCityAqi cityArg env st) = Inr None
       \<and> cache (snd (getCityAqi cityArg env st)) = Map_delete (cache st) (normalizeCityKey cityArg)
       \<and> (Map_get (cache st) (normalizeCityKey cityArg) = None \<longrightarrow>
            cache (snd (getCityAqi cityArg env st)) = cache st)
       \<and> Map_get (cache (snd (getCityAqi cityArg env st))) (normalizeCityKey cityArg) = None
       \<and> (token env' = Some tok' \<and> tok' \<noteq> [] \<and> request_url cityArg tok' = Inr u' \<longrightarrow>
            requests (snd (getCityAqi cityArg env' (snd (getCityAqi cityArg env st)))) =
              requests st @ [u, u'])"
proof -
  let ?st' = "\<lparr> cache = Map_delete (cache st) (normalizeCityKey cityArg),
                 requests = requests st @ [u] \<rparr>"
  have r: "getCityAqi cityArg env st = (Inr None, ?st')"
    by (rule getCityAqi_negative [OF assms])
  have absent: "Map_get (cache ?st') (normalizeCityKey cityArg) = None"
    by (simp add: Map_get_delete)
  have again: "requests (snd (getCityAqi cityArg env' ?st')) = requests st @ [u, u']"
    if "token env' = Some tok'" "tok' \<noteq> []" "request_url cityArg tok' = Inr u'"
    using that getFromCache_absent [OF absent, of "now_lookup env'"]
    by (simp add: getCityAqi_def Let_def
        split: fetch_outcome.splits option.splits sum.splits)
  show ?thesis
    using r absent again by (simp add: Map_delete_absent)
qed

theorem negative_result_not_stored_witness:
  "fst (getCityAqi (lit ''Delhi'') (env_with (Some (lit ''tok'')) 10 error_doc) empty_state) = Inr None
   \<and> cache (snd (getCityAqi (lit ''Delhi'') (env_with (Some (lit ''tok'')) 10 error_doc) empty_state)) = []
   \<and> requests (snd (getCityAqi (lit ''Delhi'') (env_with (Some (lit ''tok'')) 20 error_doc)
        (snd (getCityAqi (lit ''Delhi'') (env_with (Some (lit ''tok'')) 10 error_doc) empty_state)))) =
       [lit ''https://api.waqi.info/feed/Delhi/?token=tok'',
        lit ''https://api.waqi.info/feed/Delhi/?token=tok'']"
proof -
  let ?env = "env_with (Some (lit ''tok'')) 10 error_doc"
  let ?resp = "\<lparr> ok = True, status = 200, statusText = lit ''OK'', json = Some error_doc \<rparr>"
  let ?u = "lit ''https://api.waqi.info/feed/Delhi/?token=tok''"
  have miss: "fst (getFromCache (lit ''Delhi'') (now_lookup ?env) (cache empty_state)) = None"
    by (simp add: getFromCache_def Let_def Map_get_def empty_state_def)
  have tok: "token ?env = Some (lit ''tok'')" "lit ''tok'' \<noteq> []"
    by (simp_all add: env_with_def)
  have resp: "fetch ?env ?u = Response ?resp" "ok ?resp" "json ?resp = Some error_doc"
    by (simp_all add: env_with_def answer_with_def)
  have stat: "get_prop error_doc (lit ''status'') = Inr (JStr (lit ''error''))"
    "JStr (lit ''error'') \<noteq> JStr (lit ''ok'')"
    by (simp_all add: error_doc_def)
  have absent: "Map_get (cache empty_state) (normalizeCityKey (lit ''Delhi'')) = None"
    by (simp add: empty_state_def Map_get_def)
  have tok': "token (env_with (Some (lit ''tok'')) 20 error_doc) = Some (lit ''tok'')
      \<and> lit ''tok'' \<noteq> [] \<and> request_url (lit ''Delhi'') (lit ''tok'') = Inr ?u"
    by (simp add: env_with_def url_Delhi)
  show ?thesis
    using negative_result_not_stored [OF miss tok url_Delhi resp stat,
        of "env_with (Some (lit ''tok'')) 20 error_doc" "lit ''tok''" ?u] absent tok'
    by (simp add: empty_state_def Map_delete_def)
qed

section \<open>Measurements\<close>

text \<open>
  C7. In a record produced by \<^verbatim>\<open>normalizeAqicnResponse\<close> every entry of the measurements
  has a numeric value, namely the \<^verbatim>\<open>v\<close> of a sub-value of \<^verbatim>\<open>iaqi\<close> whose lower-cased code
  is the entry's key; its label is the fixed one of the code, the upper-cased code for an
  unknown code, and its unit is \<^verbatim>\<open>ug/m3\<close> in its Unicode spelling. A sub-value without a
  numeric \<^verbatim>\<open>v\<close> leaves the measurements as they are.
\<close>

theorem measurements_numeric:
  assumes "normalizeAqicnResponse rawDoc q = Some r"
    and "(k, x) \<in> set (measurements r)"
  shows "is_number (m_value x)
       \<and> m_label x = pollutant_label k
       \<and> (k \<notin> set [(lit ''pm25''), (lit ''pm10''), (lit ''o3''), (lit ''no2''), (lit ''so2''), (lit ''co'')] \<longrightarrow>
            m_label x = toUpperCase k)
       \<and> m_unit x = unit_ugm3
       \<and> (\<exists>e\<in>set (object_entries (field_of (field_of rawDoc (lit ''data'')) (lit ''iaqi''))).
             toLowerCase (fst e) = k \<and> field_of (snd e) (lit ''v'') = m_value x)
       \<and> (\<not> is_number (field_of (snd e') (lit ''v'')) \<longrightarrow> add_measurement e' acc = acc)"
proof -
  let ?es = "object_entries (field_of (field_of rawDoc (lit ''data'')) (lit ''iaqi''))"
  have "\<forall>p\<in>set (fold add_measurement ?es []). reading_of (set ?es) (fst p) (snd p)"
    by (rule fold_add_measurement_inv) simp_all
  moreover have "(k, x) \<in> set (fold add_measurement ?es [])"
    using assms(2) unfolding normalize_measurements [OF assms(1)] by (simp split: if_splits)
  ultimately have "reading_of (set ?es) k x" by fastforce
  then show ?thesis
    by (simp add: reading_of_def pollutant_label_unknown add_measurement_skip del: set_simps)
qed

theorem measurements_numeric_witness:
  "normalizeAqicnResponse delhi_doc (lit ''Delhi'') = Some delhi_record
   \<and> map fst (measurements delhi_record) = [(lit ''pm25''), (lit ''w'')]
   \<and> is_number (JNum (Fin 3))
   \<and> pollutant_label (lit ''w'') = lit ''W''
   \<and> add_measurement (lit ''t'', JObj [(lit ''v'', JStr (lit ''n/a''))]) [] = []"
proof -
  have m: "(lit ''w'', \<lparr> m_value = JNum (Fin 3), m_label = lit ''W'', m_unit = unit_ugm3 \<rparr>)
      \<in> set (measurements delhi_record)"
    by (simp add: delhi_record_def)
  have n: "\<not> is_number (field_of (snd (lit ''t'', JObj [(lit ''v'', JStr (lit ''n/a''))])) (lit ''v''))"
    by (simp add: is_number_def)
  show ?thesis
    using measurements_numeric [OF normalize_delhi m, of "(lit ''t'', JObj [(lit ''v'', JStr (lit ''n/a''))])" "[]"] n
    by (simp add: normalize_delhi delhi_record_def)
qed

section \<open>City keys\<close>




section \<open>Capacity\<close>

text \<open>
  C4. The cache never holds more than 100 entries. Every state that the service reaches
  through its route has a cache of at most 100 entries with distinct, non-empty keys. On
  such a cache \<^verbatim>\<open>setInCache\<close> with a non-empty key keeps that invariant: it evicts exactly
  one entry, the first and oldest one, when the store of a new key finds 100 entries, and
  evicts nothing otherwise. Storing 101 cities with distinct non-empty keys into an empty
  cache leaves 100 entries, without the key of the first city. Each cache operation keeps
  the invariant by itself (\<open>cache_inv_getFromCache\<close>, \<open>cache_inv_setInCache\<close>), so the
  bound also holds when requests overlap at the network call.
\<close>

theorem cache_capacity:
  "(reachable st \<longrightarrow> length (cache st) \<le> MAX_CACHE_ENTRIES)
   \<and> (cache_inv m \<and> normalizeCityKey c \<noteq> [] \<longrightarrow>
        length (setInCache c r now m) \<le> MAX_CACHE_ENTRIES
      \<and> cache_inv (setInCache c r now m)
      \<and> (Map_get m (normalizeCityKey c) = None \<and> length m = MAX_CACHE_ENTRIES \<longrightarrow>
           setInCache c r now m =
             tl m @ [(normalizeCityKey c,
                      \<lparr> data = r, expiresAt = now + CACHE_TTL_MS, lastAccessed = now \<rparr>)])
      \<and> (Map_get m (normalizeCityKey c) \<noteq> None \<or> length m < MAX_CACHE_ENTRIES \<longrightarrow>
           setInCache c r now m =
             Map_set m (normalizeCityKey c)
               \<lparr> data = r, expiresAt = now + CACHE_TTL_MS, lastAccessed = now \<rparr>))
   \<and> (length cs = 101 \<and> distinct (city_keys cs)
        \<and> [] \<notin> set (city_keys cs) \<longrightarrow>
        length (store_all cs r []) = 100
      \<and> map fst (store_all cs r []) = city_keys (tl cs)
      \<and> Map_get (store_all cs r []) (normalizeCityKey (fst (hd cs))) = None)"
proof -
  let ?e = "\<lparr> data = r, expiresAt = now + CACHE_TTL_MS, lastAccessed = now \<rparr>"
  have A: "reachable st \<longrightarrow> length (cache st) \<le> MAX_CACHE_ENTRIES"
  proof
    assume "reachable st"
    then have "cache_inv (cache st)" by (rule reachable_inv)
    then show "length (cache st) \<le> MAX_CACHE_ENTRIES" by (simp add: cache_inv_def)
  qed
  have B: "cache_inv m \<and> normalizeCityKey c \<noteq> [] \<longrightarrow>
        length (setInCache c r now m) \<le> MAX_CACHE_ENTRIES
      \<and> cache_inv (setInCache c r now m)
      \<and> (Map_get m (normalizeCityKey c) = None \<and> length m = MAX_CACHE_ENTRIES \<longrightarrow>
           setInCache c r now m = tl m @ [(normalizeCityKey c, ?e)])
      \<and> (Map_get m (normalizeCityKey c) \<noteq> None \<or> length m < MAX_CACHE_ENTRIES \<longrightarrow>
           setInCache c r now m = Map_set m (normalizeCityKey c) ?e)"
  proof
    assume i: "cache_inv m \<and> normalizeCityKey c \<noteq> []"
    then have ci: "cache_inv m" and kne: "normalizeCityKey c \<noteq> []" by simp_all
    have inv: "cache_inv (setInCache c r now m)" by (rule cache_inv_setInCache [OF ci kne])
    then have len: "length (setInCache c r now m) \<le> MAX_CACHE_ENTRIES"
      by (simp add: cache_inv_def)
    have full: "setInCache c r now m = tl m @ [(normalizeCityKey c, ?e)]"
      if "Map_get m (normalizeCityKey c) = None \<and> length m = MAX_CACHE_ENTRIES"
      using that by (simp add: setInCache_full [OF ci])
    have room: "setInCache c r now m = Map_set m (normalizeCityKey c) ?e"
      if h: "Map_get m (normalizeCityKey c) \<noteq> None \<or> length m < MAX_CACHE_ENTRIES"
    proof (cases "Map_get m (normalizeCityKey c)")
      case None
      with h have "length m < MAX_CACHE_ENTRIES" by simp
      with None show ?thesis by (simp add: setInCache_room Map_set_absent)
    next
      case (Some e)
      then have "Map_get m (normalizeCityKey c) \<noteq> None" by simp
      then show ?thesis by (rule setInCache_present_key [OF ci])
    qed
    from len inv full room
    show "length (setInCache c r now m) \<le> MAX_CACHE_ENTRIES
      \<and> cache_inv (setInCache c r now m)
      \<and> (Map_get m (normalizeCityKey c) = None \<and> length m = MAX_CACHE_ENTRIES \<longrightarrow>
           setInCache c r now m = tl m @ [(normalizeCityKey c, ?e)])
      \<and> (Map_get m (normalizeCityKey c) \<noteq> None \<or> length m < MAX_CACHE_ENTRIES \<longrightarrow>
           setInCache c r now m = Map_set m (normalizeCityKey c) ?e)"
      by blast
  qed
  have C: "length cs = 101 \<and> distinct (city_keys cs) \<and> [] \<notin> set (city_keys cs) \<longrightarrow>
        length (store_all cs r []) = 100
      \<and> map fst (store_all cs r []) = city_keys (tl cs)
      \<and> Map_get (store_all cs r []) (normalizeCityKey (fst (hd cs))) = None"
  proof
    assume h: "length cs = 101 \<and> distinct (city_keys cs) \<and> [] \<notin> set (city_keys cs)"
    then have d: "distinct (city_keys cs)"
      and n: "[] \<notin> set (city_keys cs)" and l: "length cs = 101"
      by simp_all
    from l obtain x xs where cs: "cs = x # xs" by (cases cs) simp_all
    from store_all_keys [OF d n, of r] l
    have "map fst (store_all cs r []) = drop 1 (city_keys cs)"
      by (simp add: MAX_CACHE_ENTRIES_def)
    then have keys: "map fst (store_all cs r []) = city_keys (tl cs)"
      by (simp add: city_keys_tl drop_Suc)
    then have "length (map fst (store_all cs r [])) = length (city_keys (tl cs))"
      by (rule arg_cong)
    with l have len: "length (store_all cs r []) = 100"
      by (simp add: length_city_keys)
    from d cs have "normalizeCityKey (fst (hd cs)) \<notin> set (city_keys (tl cs))"
      by (simp add: city_keys_def)
    with keys have "normalizeCityKey (fst (hd cs)) \<notin> fst ` set (store_all cs r [])"
      by (metis set_map)
    then have "Map_get (store_all cs r []) (normalizeCityKey (fst (hd cs))) = None"
      by (simp add: Map_get_None_iff)
    with keys len show "length (store_all cs r []) = 100
        \<and> map fst (store_all cs r []) = city_keys (tl cs)
        \<and> Map_get (store_all cs r []) (normalizeCityKey (fst (hd cs))) = None"
      by simp
  qed
  show ?thesis by (rule conjI [OF A conjI [OF B C]])
qed

theorem cache_capacity_witness:
  "length (cache (snd (aqi_route (lit '' Delhi '') (env_with (Some (lit ''tok'')) 0 delhi_doc)
       \<lparr> cache = [], requests = [] \<rparr>))) \<le> MAX_CACHE_ENTRIES
   \<and> length (setInCache (replicate 101 0x61) delhi_record 100
        (store_all (a_cities 100) delhi_record [])) \<le> MAX_CACHE_ENTRIES
   \<and> setInCache (replicate 101 0x61) delhi_record 100 (store_all (a_cities 100) delhi_record []) =
       tl (store_all (a_cities 100) delhi_record [])
         @ [(replicate 101 0x61,
             \<lparr> data = delhi_record, expiresAt = 100 + CACHE_TTL_MS, lastAccessed = 100 \<rparr>)]
   \<and> setInCache (lit ''Delhi'') delhi_record 0 [] =
       [(lit ''delhi'', \<lparr> data = delhi_record, expiresAt = CACHE_TTL_MS, lastAccessed = 0 \<rparr>)]
   \<and> length (store_all (a_cities 101) delhi_record []) = 100
   \<and> Map_get (store_all (a_cities 101) delhi_record []) [0x61] = None"
proof -
  let ?st = "snd (aqi_route (lit '' Delhi '') (env_with (Some (lit ''tok'')) 0 delhi_doc)
       \<lparr> cache = [], requests = [] \<rparr>)"
  let ?m = "store_all (a_cities 100) delhi_record []"
  have r: "reachable ?st" by (rule reachable.request [OF reachable.start])
  have i: "cache_inv ?m \<and> normalizeCityKey (replicate 101 0x61) \<noteq> []"
    using a_cities_stored [of 100 delhi_record] by (simp add: key_replicate_a)
  have f: "Map_get ?m (normalizeCityKey (replicate 101 0x61)) = None \<and> length ?m = MAX_CACHE_ENTRIES"
    by (simp add: a_cities_100_absent a_cities_100_length)
  have i0: "cache_inv [] \<and> normalizeCityKey (lit ''Delhi'') \<noteq> []"
    by (simp add: cache_inv_def key_Delhi)
  have f0: "Map_get [] (normalizeCityKey (lit ''Delhi'')) \<noteq> None
      \<or> length ([] :: cache_entry js_map) < MAX_CACHE_ENTRIES"
    by (simp add: MAX_CACHE_ENTRIES_def)
  have h: "length (a_cities 101) = 101 \<and> distinct (city_keys (a_cities 101))
      \<and> [] \<notin> set (city_keys (a_cities 101))"
    using a_cities_nonempty [of 101] by (simp add: a_cities_distinct) (simp add: a_cities_def)
  have hd: "normalizeCityKey (fst (hd (a_cities 101))) = [0x61]"
  proof -
    have "a_cities 101 = (replicate (Suc 0) 0x61, 0) # map (\<lambda>i. (replicate (Suc i) 0x61, int i)) [1..<101]"
      by (simp add: a_cities_def upt_conv_Cons del: upt_Suc replicate_Suc)
    then have "fst (hd (a_cities 101)) = replicate (Suc 0) 0x61" by simp
    then show ?thesis by (simp only: key_replicate_a) simp
  qed
  from cache_capacity [of ?st ?m "replicate 101 0x61" delhi_record 100 "a_cities 101"] r i f h
  have 1: "length (cache ?st) \<le> MAX_CACHE_ENTRIES"
    and 2: "length (setInCache (replicate 101 0x61) delhi_record 100 ?m) \<le> MAX_CACHE_ENTRIES"
    and 3: "setInCache (replicate 101 0x61) delhi_record 100 ?m =
       tl ?m @ [(normalizeCityKey (replicate 101 0x61),
             \<lparr> data = delhi_record, expiresAt = 100 + CACHE_TTL_MS, lastAccessed = 100 \<rparr>)]"
    and 5: "length (store_all (a_cities 101) delhi_record []) = 100"
    and 6: "Map_get (store_all (a_cities 101) delhi_record [])
        (normalizeCityKey (fst (hd (a_cities 101)))) = None"
    by blast+
  from cache_capacity [of ?st "[]" "lit ''Delhi''" delhi_record 0 "a_cities 101"] i0 f0
  have 4: "setInCache (lit ''Delhi'') delhi_record 0 [] =
      Map_set [] (normalizeCityKey (lit ''Delhi''))
        \<lparr> data = delhi_record, expiresAt = 0 + CACHE_TTL_MS, lastAccessed = 0 \<rparr>"
    by blast
  from 1 2 3 4 5 6 show ?thesis
    by (simp add: key_replicate_a hd key_Delhi Map_set_def)
qed

end
